theory Spec2Isabelle
  imports Main "HOL-Library.AList"
begin

section \<open>The gateway orchestration layer of apollo-gateway (src/index.ts)\<close>

text \<open>
  The class \<^verbatim>\<open>ApolloGateway\<close> is embedded by explicit state passing: the mutable fields of
  an instance are a record, every method takes the instance and returns the instance after
  the call, together with either the error it threw (\<open>Inl\<close>) or its return value (\<open>Inr\<close>).
  Calls of the logger and of the observability callbacks are recorded, in order, in the
  instance, so that what was logged and which callback was fired with which arguments can
  be stated. A callback is code of the user: it may throw, and the methods call it without
  catching anything, so its exception leaves the method that called it.
\<close>

subsection \<open>Data\<close>

type_synonym GraphQLError = string

datatype error =
    GraphQLSchemaValidationError "GraphQLError list"
  | Error string
  | TypeError string

text \<open>\<^verbatim>\<open>ServiceDefinition\<close>; a \<^verbatim>\<open>ServiceEndpointDefinition\<close> is its \<open>name\<close> and \<open>url\<close>.\<close>

record ServiceDefinition =
  name :: string
  url :: "string option"
  typeDefs :: string

text \<open>
  The handle stored in the service map: the default \<^verbatim>\<open>RemoteGraphQLDataSource({url})\<close>,
  or whatever a configured \<^verbatim>\<open>buildService\<close> returned.
\<close>

datatype GraphQLDataSource =
    RemoteGraphQLDataSource "string option"
  | CustomDataSource string

type_synonym ServiceMap = "(string \<times> GraphQLDataSource) list"

text \<open>
  The part of a \<^verbatim>\<open>GraphQLSchema\<close> that \<^verbatim>\<open>wrapSchemaWithAliasResolver\<close> walks: the type map,
  each type with its name, its kind and its fields, each field with its resolver. A
  resolver reads a value out of the object a backend returned, given the field name and
  the response key (\<^verbatim>\<open>info.path.key\<close>: the alias when the query has one).
\<close>

datatype TypeKind = SCALAR | OBJECT | INTERFACE | UNION | ENUM | INPUT_OBJECT

record GraphQLResolveInfo =
  fieldName :: string
  path_key :: string

type_synonym GraphQLFieldResolver =
  "(string \<times> string) list \<Rightarrow> GraphQLResolveInfo \<Rightarrow> string option"

record GraphQLField =
  field_type :: string
  resolve :: "GraphQLFieldResolver option"

record GraphQLType =
  type_name :: string
  kind :: TypeKind
  type_fields :: "(string \<times> GraphQLField) list"

record GraphQLSchema =
  typeMap :: "(string \<times> GraphQLType) list"

text \<open>
  Modelled from the spec: \<^verbatim>\<open>QueryPlan\<close> and \<^verbatim>\<open>OperationContext\<close> are declared in
  ./QueryPlan, which is not among the sources. The specification gives a plan as a tree
  of fetch, sequence, parallel and flatten nodes, and an operation context as the schema,
  the operation, the selected operation name and the fragment table. index.ts only passes
  both on.
\<close>

datatype QueryPlan =
    Fetch string string
  | Sequence "QueryPlan list"
  | Parallel "QueryPlan list"
  | Flatten "string list" QueryPlan

record OperationContext =
  oc_schema :: GraphQLSchema
  oc_operation :: string
  oc_operationName :: "string option"
  oc_fragments :: "(string \<times> string) list"

text \<open>
  The request context handed to the executor. \<open>headers\<close> is the \<^verbatim>\<open>get\<close> method of the
  request's \<^verbatim>\<open>Headers\<close> object: the value stored under a header name, if any.
\<close>

record HTTPRequest =
  headers :: "string \<Rightarrow> string option"

record GraphQLRequest =
  operationName :: "string option"
  http :: "HTTPRequest option"

record GraphQLRequestContext =
  request :: GraphQLRequest
  document :: string
  queryHash :: string

record GraphQLExecutionResult =
  data :: "string option"
  errors :: "string list option"
  extensions :: "(string \<times> string) list option"

text \<open>
  \<^verbatim>\<open>GatewayConfig\<close>. An optional property is an \<open>option\<close>. For the function-valued options
  the record holds whether the option is given; what the given function does is part of
  the environment below. \<open>exposeQueryPlanExperimental\<close> is the option
  \<^verbatim>\<open>__exposeQueryPlanExperimental\<close>; \<open>localServiceList\<close> is given exactly for a
  \<^verbatim>\<open>LocalGatewayConfig\<close>.
\<close>

record GatewayConfig =
  debug :: "bool option"
  exposeQueryPlanExperimental :: "bool option"
  buildService :: bool
  serviceList :: "ServiceDefinition list option"
  introspectionHeaders :: "(string \<times> string) list option"
  config_didResolveQueryPlan :: bool
  config_didFailComposition :: bool
  config_didUpdateSchema :: bool
  config_didUpdateServiceList :: bool
  config_getServiceList :: bool
  localServiceList :: "ServiceDefinition list option"

text \<open>The calls made on the logger, and the calls made to the observability callbacks.\<close>

datatype log_call =
    EnableAll
  | Debug string
  | Warn string error

datatype callback_call =
    DidResolveQueryPlan QueryPlan ServiceMap OperationContext
  | DidFailComposition "GraphQLError list" "ServiceDefinition list"
  | DidUpdateSchema "GraphQLSchema option" GraphQLSchema
  | DidUpdateServiceList "ServiceDefinition list" "ServiceDefinition list"

text \<open>
  \<^verbatim>\<open>InMemoryLRUCache<QueryPlan>\<close> (apollo-server-caching): the size budget it was created
  with and the entries it holds. Its \<^verbatim>\<open>get\<close> and \<^verbatim>\<open>set\<close> are part of the environment.
\<close>

record InMemoryLRUCache =
  maxSize :: nat
  entries :: "(string \<times> QueryPlan) list"

text \<open>
  What has become of a promise that nobody awaits, at the time the function that created
  it returns: still pending, fulfilled with a value, or rejected with an error.
\<close>

datatype 'a promise = Pending | Fulfilled 'a | Rejected error

text \<open>The fields of an \<^verbatim>\<open>ApolloGateway\<close> instance; \<open>callbacks\<close> is the trace of callback calls.\<close>

record ApolloGateway =
  schema :: "GraphQLSchema option"
  isReady :: bool
  serviceMap :: ServiceMap
  config :: GatewayConfig
  logger :: "log_call list"
  queryPlanStore :: "InMemoryLRUCache option"
  experimental_didResolveQueryPlan :: bool
  experimental_didFailComposition :: bool
  experimental_didUpdateSchema :: bool
  experimental_didUpdateServiceList :: bool
  experimental_getServiceList :: bool
  callbacks :: "callback_call list"

text \<open>
  The collaborators that are imported by index.ts and whose code is elsewhere, as
  parameters: every theorem below holds for all of them. A collaborator that can throw
  (or return a promise that rejects) returns a sum. \<open>observer\<close> is what the configured
  callbacks do when they are called: return (\<open>None\<close>) or throw an error.
\<close>

record Env =
  NODE_ENV :: "string option"
  composeAndValidate :: "ServiceDefinition list \<Rightarrow> GraphQLSchema \<times> GraphQLError list option"
  buildService_fn :: "ServiceDefinition \<Rightarrow> GraphQLDataSource"
  getServiceList_fn :: "GatewayConfig \<Rightarrow> error + ServiceDefinition list"
  getServiceDefinitionsFromRemoteEndpoint ::
    "ServiceDefinition list \<Rightarrow> (string \<times> string) list option \<Rightarrow> error + ServiceDefinition list"
  buildOperationContext :: "GraphQLSchema \<Rightarrow> string \<Rightarrow> string option \<Rightarrow> error + OperationContext"
  buildQueryPlan :: "OperationContext \<Rightarrow> error + QueryPlan"
  executeQueryPlan ::
    "QueryPlan \<Rightarrow> ServiceMap \<Rightarrow> GraphQLRequestContext \<Rightarrow> OperationContext
      \<Rightarrow> error + GraphQLExecutionResult"
  serializeQueryPlan :: "QueryPlan \<Rightarrow> string"
  store_get :: "InMemoryLRUCache \<Rightarrow> string \<Rightarrow> error + QueryPlan option"
  store_set :: "InMemoryLRUCache \<Rightarrow> string \<Rightarrow> QueryPlan \<Rightarrow> InMemoryLRUCache promise"
  observer :: "callback_call \<Rightarrow> error option"

subsection \<open>Helpers of the embedding\<close>

definition logger_debug :: "string \<Rightarrow> ApolloGateway \<Rightarrow> ApolloGateway" where
  "logger_debug msg gw = gw\<lparr>logger := logger gw @ [Debug msg]\<rparr>"

definition logger_warn :: "string \<Rightarrow> error \<Rightarrow> ApolloGateway \<Rightarrow> ApolloGateway" where
  "logger_warn msg err gw = gw\<lparr>logger := logger gw @ [Warn msg err]\<rparr>"

text \<open>
  A call of a callback: the call is recorded, and the callback returns or throws.
\<close>

definition fire ::
  "Env \<Rightarrow> callback_call \<Rightarrow> ApolloGateway \<Rightarrow> error option \<times> ApolloGateway" where
  "fire env c gw = (observer env c, gw\<lparr>callbacks := callbacks gw @ [c]\<rparr>)"

text \<open>\<^verbatim>\<open>Array.prototype.join\<close>.\<close>

fun join :: "string \<Rightarrow> string list \<Rightarrow> string" where
  "join sep [] = []"
| "join sep [x] = x"
| "join sep (x # y # ys) = x @ sep @ join sep (y # ys)"

text \<open>JavaScript truthiness of an optional string: \<^verbatim>\<open>undefined\<close>, \<^verbatim>\<open>null\<close> and \<^verbatim>\<open>''\<close> are falsy.\<close>

definition truthy :: "string option \<Rightarrow> bool" where
  "truthy v = (case v of None \<Rightarrow> False | Some s \<Rightarrow> s \<noteq> [])"

subsection \<open>wrapSchemaWithAliasResolver\<close>

text \<open>
  Modelled from the spec: \<^verbatim>\<open>defaultFieldResolverWithAliasSupport\<close> is defined in
  ./executeQueryPlan, which is not among the sources. The specification says of it that
  a field whose backend response used a response alias is read by alias, not by field
  name: it reads the backend's object at the response key.
\<close>

definition defaultFieldResolverWithAliasSupport :: GraphQLFieldResolver where
  "defaultFieldResolverWithAliasSupport source info = map_of source (path_key info)"

text \<open>
  \<^verbatim>\<open>isObjectType\<close> and \<^verbatim>\<open>isIntrospectionType\<close> are functions of the graphql-js library:
  the first holds of the object types, the second of the types that carry one of the
  names of the introspection schema.
\<close>

definition isObjectType :: "GraphQLType \<Rightarrow> bool" where
  "isObjectType t = (kind t = OBJECT)"

definition isIntrospectionType :: "GraphQLType \<Rightarrow> bool" where
  "isIntrospectionType t =
     (type_name t \<in> set [''__Schema'', ''__Directive'', ''__DirectiveLocation'', ''__Type'',
        ''__Field'', ''__InputValue'', ''__EnumValue'', ''__TypeKind''])"

definition wrapFields :: "(string \<times> GraphQLField) list \<Rightarrow> (string \<times> GraphQLField) list" where
  "wrapFields fs =
     map (\<lambda>(fieldName, field).
            (fieldName, field\<lparr>resolve := Some defaultFieldResolverWithAliasSupport\<rparr>)) fs"

definition wrapType :: "GraphQLType \<Rightarrow> GraphQLType" where
  "wrapType t =
     (if isObjectType t \<and> \<not> isIntrospectionType t
      then t\<lparr>type_fields := wrapFields (type_fields t)\<rparr>
      else t)"

definition wrapSchemaWithAliasResolver :: "GraphQLSchema \<Rightarrow> GraphQLSchema" where
  "wrapSchemaWithAliasResolver sch =
     sch\<lparr>typeMap := map (\<lambda>(typeName, t). (typeName, wrapType t)) (typeMap sch)\<rparr>"

subsection \<open>The methods of ApolloGateway\<close>

definition isLocalConfig :: "GatewayConfig \<Rightarrow> bool" where
  "isLocalConfig cfg = (localServiceList cfg \<noteq> None)"

text \<open>
  \<^verbatim>\<open>createServices\<close>: the loop assigns \<^verbatim>\<open>this.serviceMap[serviceDef.name]\<close> service by
  service and throws at the first service without a url (unless the config is local);
  the assignments made before the throw stay.
\<close>

definition buildHandle :: "Env \<Rightarrow> ApolloGateway \<Rightarrow> ServiceDefinition \<Rightarrow> GraphQLDataSource" where
  "buildHandle env gw serviceDef =
     (if buildService (config gw) then buildService_fn env serviceDef
      else RemoteGraphQLDataSource (url serviceDef))"

fun createServices ::
  "Env \<Rightarrow> ServiceDefinition list \<Rightarrow> ApolloGateway \<Rightarrow> (error + unit) \<times> ApolloGateway" where
  "createServices env [] gw = (Inr (), gw)"
| "createServices env (serviceDef # services) gw =
     (if \<not> truthy (url serviceDef) \<and> \<not> isLocalConfig (config gw)
      then (Inl (Error (''Service defintion for service '' @ name serviceDef
                          @ '' is missing a url'')), gw)
      else createServices env services
             (gw\<lparr>serviceMap :=
                  AList.update (name serviceDef) (buildHandle env gw serviceDef)
                    (serviceMap gw)\<rparr>))"

definition createSchema ::
  "Env \<Rightarrow> ServiceDefinition list \<Rightarrow> ApolloGateway \<Rightarrow> (error + unit) \<times> ApolloGateway" where
  "createSchema env services gw =
     (let previousSchema = schema gw;
          gw1 = logger_debug (''Composing schema from service list: '' @ [CHR 0x0A]
                   @ join [CHR 0x0A] (map (\<lambda>s. ''  '' @ name s) services)) gw
      in case composeAndValidate env services of (composed, errs) \<Rightarrow>
        (case (case errs of None \<Rightarrow> [] | Some es \<Rightarrow> es) of
           e # es \<Rightarrow>
             (case (if experimental_didFailComposition gw1
                    then fire env (DidFailComposition (e # es) services) gw1
                    else (None, gw1)) of
                (Some thrown, gw2) \<Rightarrow> (Inl thrown, gw2)
              | (None, gw2) \<Rightarrow> (Inl (GraphQLSchemaValidationError (e # es)), gw2))
         | [] \<Rightarrow>
            (let gw2 = gw1\<lparr>schema := Some (wrapSchemaWithAliasResolver composed)\<rparr>
             in case (if experimental_didUpdateSchema gw2
                      then fire env (DidUpdateSchema previousSchema
                                       (wrapSchemaWithAliasResolver composed)) gw2
                      else (None, gw2)) of
                  (Some thrown, gw3) \<Rightarrow> (Inl thrown, gw3)
                | (None, gw3) \<Rightarrow>
                   (case createServices env services gw3 of
                      (Inl err, gw4) \<Rightarrow> (Inl err, gw4)
                    | (Inr _, gw4) \<Rightarrow>
                        (Inr (), (logger_debug ''Schema loaded and ready for execution'' gw4)
                                   \<lparr>isReady := True\<rparr>)))))"

text \<open>
  \<^verbatim>\<open>loadServiceDefinitions\<close>. The service map is filled from the services the remote
  endpoints returned before the list is handed back.
\<close>

definition loadServiceDefinitions ::
  "Env \<Rightarrow> GatewayConfig \<Rightarrow> ApolloGateway
    \<Rightarrow> (error + ServiceDefinition list) \<times> ApolloGateway" where
  "loadServiceDefinitions env cfg gw =
     (case localServiceList cfg of
        Some local \<Rightarrow> (Inr local, gw)
      | None \<Rightarrow>
         (case serviceList cfg of
            None \<Rightarrow>
              (Inl (Error ''The gateway requires a service list to be provided in the config''),
               gw)
          | Some listed \<Rightarrow>
             (case getServiceDefinitionsFromRemoteEndpoint env listed (introspectionHeaders cfg) of
                Inl err \<Rightarrow> (Inl err, gw)
              | Inr remoteServices \<Rightarrow>
                 (case createServices env remoteServices gw of
                    (Inl err, gw1) \<Rightarrow> (Inl err, gw1)
                  | (Inr _, gw1) \<Rightarrow> (Inr remoteServices, gw1)))))"

text \<open>
  \<^verbatim>\<open>load\<close> returns \<^verbatim>\<open>{ schema: this.schema, executor: this.executor }\<close>. The executor
  property of an instance is never reassigned: it is the function \<open>executor\<close> below, and
  the returned value is modelled by the schema it carries.
\<close>

definition load :: "Env \<Rightarrow> ApolloGateway \<Rightarrow> (error + GraphQLSchema option) \<times> ApolloGateway" where
  "load env gw =
     (if \<not> isReady gw then
        (let gw1 = logger_debug ''Loading configuration for Gateway'' gw
         in case (if experimental_getServiceList gw1
                  then (getServiceList_fn env (config gw1), gw1)
                  else loadServiceDefinitions env (config gw1) gw1) of
              (Inl err, gw2) \<Rightarrow> (Inl err, gw2)
            | (Inr services, gw2) \<Rightarrow>
               (case createSchema env services
                       (logger_debug ''Configuration loaded for Gateway'' gw2) of
                  (Inl err, gw3) \<Rightarrow> (Inl err, gw3)
                | (Inr _, gw3) \<Rightarrow> (Inr (schema gw3), gw3)))
      else (Inr (schema gw), gw))"

definition initializeQueryPlanStore :: "ApolloGateway \<Rightarrow> ApolloGateway" where
  "initializeQueryPlanStore gw =
     gw\<lparr>queryPlanStore := Some \<lparr>maxSize = 2 ^ 20 * 30, entries = []\<rparr>\<rparr>"

text \<open>
  The constructor. The field initialisers run first; the defaulted config is the spread
  \<^verbatim>\<open>{ __exposeQueryPlanExperimental: NODE_ENV !== 'production', ...config }\<close>, in which a
  value given in \<open>cfg\<close> overrides the default. A local config is composed at once, before
  the plan store is created and before the callbacks are taken from the config. An
  exception of \<^verbatim>\<open>createSchema\<close> leaves the constructor: no instance exists then.
\<close>

definition new_ApolloGateway :: "Env \<Rightarrow> GatewayConfig \<Rightarrow> error + ApolloGateway" where
  "new_ApolloGateway env cfg =
     (let gw0 = \<lparr>schema = None, isReady = False, serviceMap = [],
                 config = cfg\<lparr>exposeQueryPlanExperimental :=
                            (case exposeQueryPlanExperimental cfg of
                               None \<Rightarrow> Some (NODE_ENV env \<noteq> Some ''production'')
                             | Some b \<Rightarrow> Some b)\<rparr>,
                 logger = [], queryPlanStore = None,
                 experimental_didResolveQueryPlan = False,
                 experimental_didFailComposition = False,
                 experimental_didUpdateSchema = False,
                 experimental_didUpdateServiceList = False,
                 experimental_getServiceList = False,
                 callbacks = []\<rparr>;
          gw1 = (if debug cfg = Some True then gw0\<lparr>logger := logger gw0 @ [EnableAll]\<rparr> else gw0)
      in case (case localServiceList cfg of
                 Some local \<Rightarrow> createSchema env local gw1
               | None \<Rightarrow> (Inr (), gw1)) of
           (Inl err, gw2) \<Rightarrow> Inl err
         | (Inr _, gw2) \<Rightarrow>
             Inr ((initializeQueryPlanStore gw2)
                    \<lparr>experimental_didResolveQueryPlan := config_didResolveQueryPlan cfg,
                     experimental_didFailComposition := config_didFailComposition cfg,
                     experimental_didUpdateSchema := config_didUpdateSchema cfg,
                     experimental_didUpdateServiceList := config_didUpdateServiceList cfg,
                     experimental_getServiceList := config_getServiceList cfg\<rparr>))"

subsection \<open>The executor\<close>

text \<open>
  Lines 266 to 290 of the executor: the plan is the one the store returns under
  \<open>queryHash\<close>, and a freshly built one when there is no store or no entry. The fresh plan
  is written to the store by a promise that is not awaited; its \<^verbatim>\<open>catch\<close> handler logs
  a warning. \<open>storeQueryPlan\<close> is that detached write, by what has become of it.
\<close>

definition storeQueryPlan :: "Env \<Rightarrow> string \<Rightarrow> QueryPlan \<Rightarrow> ApolloGateway \<Rightarrow> ApolloGateway" where
  "storeQueryPlan env key queryPlan gw =
     (case queryPlanStore gw of
        None \<Rightarrow> gw
      | Some store \<Rightarrow>
         (case store_set env store key queryPlan of
            Pending \<Rightarrow> gw
          | Fulfilled store' \<Rightarrow> gw\<lparr>queryPlanStore := Some store'\<rparr>
          | Rejected err \<Rightarrow> logger_warn ''Could not store queryPlan'' err gw))"

definition resolveQueryPlan ::
  "Env \<Rightarrow> GraphQLRequestContext \<Rightarrow> OperationContext \<Rightarrow> ApolloGateway
    \<Rightarrow> (error + QueryPlan) \<times> ApolloGateway" where
  "resolveQueryPlan env requestContext operationContext gw =
     (case (case queryPlanStore gw of
              None \<Rightarrow> Inr None
            | Some store \<Rightarrow> store_get env store (queryHash requestContext)) of
        Inl err \<Rightarrow> (Inl err, gw)
      | Inr (Some queryPlan) \<Rightarrow> (Inr queryPlan, gw)
      | Inr None \<Rightarrow>
         (case buildQueryPlan env operationContext of
            Inl err \<Rightarrow> (Inl err, gw)
          | Inr queryPlan \<Rightarrow>
              (Inr queryPlan, storeQueryPlan env (queryHash requestContext) queryPlan gw)))"

text \<open>Lines 307 to 311: the flag of the config, and a truthy value of the header.\<close>

definition shouldShowQueryPlan :: "ApolloGateway \<Rightarrow> GraphQLRequestContext \<Rightarrow> bool" where
  "shouldShowQueryPlan gw requestContext =
     (exposeQueryPlanExperimental (config gw) = Some True \<and>
      (case http (request requestContext) of
         None \<Rightarrow> False
       | Some h \<Rightarrow> truthy (headers h ''Apollo-Query-Plan-Experimental'')))"

text \<open>
  The non-null assertion \<^verbatim>\<open>this.schema!\<close> is erased at run time. Without a schema the
  planner is handed \<^verbatim>\<open>undefined\<close> and fails when it reads it; the model makes that
  failure the result of the dereference.
\<close>

definition schema_nonNull :: "ApolloGateway \<Rightarrow> error + GraphQLSchema" where
  "schema_nonNull gw =
     (case schema gw of
        None \<Rightarrow> Inl (TypeError ''Cannot read property of undefined'')
      | Some sch \<Rightarrow> Inr sch)"

definition executor ::
  "Env \<Rightarrow> GraphQLRequestContext \<Rightarrow> ApolloGateway
    \<Rightarrow> (error + GraphQLExecutionResult) \<times> ApolloGateway" where
  "executor env requestContext gw =
     (case schema_nonNull gw of
        Inl err \<Rightarrow> (Inl err, gw)
      | Inr sch \<Rightarrow>
         (case buildOperationContext env sch (document requestContext)
                 (operationName (request requestContext)) of
            Inl err \<Rightarrow> (Inl err, gw)
          | Inr operationContext \<Rightarrow>
             (case resolveQueryPlan env requestContext operationContext gw of
                (Inl err, gw1) \<Rightarrow> (Inl err, gw1)
              | (Inr queryPlan, gw1) \<Rightarrow>
                 (case executeQueryPlan env queryPlan (serviceMap gw1) requestContext
                         operationContext of
                    Inl err \<Rightarrow> (Inl err, gw1)
                  | Inr response \<Rightarrow>
                     (case (if experimental_didResolveQueryPlan gw1
                            then fire env (DidResolveQueryPlan queryPlan (serviceMap gw1)
                                             operationContext) gw1
                            else (None, gw1)) of
                        (Some thrown, gw2) \<Rightarrow> (Inl thrown, gw2)
                      | (None, gw2) \<Rightarrow>
                         (if shouldShowQueryPlan gw2 requestContext
                          then (let serializedQueryPlan = serializeQueryPlan env queryPlan
                                in (Inr (response\<lparr>extensions :=
                                           Some [(''__queryPlanExperimental'',
                                                  serializedQueryPlan)]\<rparr>),
                                    logger_debug serializedQueryPlan gw2))
                          else (Inr response, gw2)))))))"

subsection \<open>The invariant of an instance\<close>

text \<open>A ready instance has a schema.\<close>

definition schemaInvariant :: "ApolloGateway \<Rightarrow> bool" where
  "schemaInvariant gw = (isReady gw \<longrightarrow> schema gw \<noteq> None)"

subsection \<open>A concrete environment and concrete instances\<close>

text \<open>
  Collaborators simple enough to evaluate: composition gives the query type one field per
  service and reports a service without type definitions; the planner fetches every field
  of the query type from the service of that name; the plan store is an association list.
\<close>

definition ex_field :: GraphQLField where
  "ex_field = \<lparr>field_type = ''String'', resolve = None\<rparr>"

definition ex_compose :: "ServiceDefinition list \<Rightarrow> GraphQLSchema \<times> GraphQLError list option" where
  "ex_compose svcs =
     (\<lparr>typeMap =
         [(''Query'', \<lparr>type_name = ''Query'', kind = OBJECT,
                      type_fields = map (\<lambda>s. (name s, ex_field)) svcs\<rparr>),
          (''__Schema'', \<lparr>type_name = ''__Schema'', kind = OBJECT,
                         type_fields = [(''types'', ex_field)]\<rparr>),
          (''Node'', \<lparr>type_name = ''Node'', kind = INTERFACE,
                     type_fields = [(''id'', ex_field)]\<rparr>),
          (''String'', \<lparr>type_name = ''String'', kind = SCALAR, type_fields = []\<rparr>)]\<rparr>,
      Some (concat (map (\<lambda>s. if typeDefs s = [] then [''No typeDefs for '' @ name s] else [])
                     svcs)))"

definition ex_buildQueryPlan :: "OperationContext \<Rightarrow> error + QueryPlan" where
  "ex_buildQueryPlan oc =
     (case map_of (typeMap (oc_schema oc)) ''Query'' of
        None \<Rightarrow> Inl (Error ''No query type'')
      | Some t \<Rightarrow> Inr (Parallel (map (\<lambda>(f, _). Fetch f (oc_operation oc)) (type_fields t))))"

fun ex_serializeQueryPlan :: "QueryPlan \<Rightarrow> string" where
  "ex_serializeQueryPlan (Fetch s q) = ''Fetch('' @ s @ '')''"
| "ex_serializeQueryPlan (Sequence ns) = ''Sequence('' @ concat (map ex_serializeQueryPlan ns) @ '')''"
| "ex_serializeQueryPlan (Parallel ns) = ''Parallel('' @ concat (map ex_serializeQueryPlan ns) @ '')''"
| "ex_serializeQueryPlan (Flatten p n) = ''Flatten('' @ ex_serializeQueryPlan n @ '')''"

definition ex_env :: Env where
  "ex_env =
     \<lparr>NODE_ENV = None,
      composeAndValidate = ex_compose,
      buildService_fn = (\<lambda>s. CustomDataSource (name s)),
      getServiceList_fn = (\<lambda>cfg. Inr []),
      getServiceDefinitionsFromRemoteEndpoint =
        (\<lambda>listed hdrs. Inr (map (\<lambda>s. s\<lparr>typeDefs := ''type Query''\<rparr>) listed)),
      buildOperationContext =
        (\<lambda>sch doc opn. Inr \<lparr>oc_schema = sch, oc_operation = doc, oc_operationName = opn,
                        oc_fragments = []\<rparr>),
      buildQueryPlan = ex_buildQueryPlan,
      executeQueryPlan =
        (\<lambda>qp sm rc oc. Inr \<lparr>data = Some (ex_serializeQueryPlan qp), errors = None,
                             extensions = None\<rparr>),
      serializeQueryPlan = ex_serializeQueryPlan,
      store_get = (\<lambda>store key. Inr (map_of (entries store) key)),
      store_set = (\<lambda>store key qp.
         Fulfilled (store\<lparr>entries := AList.update key qp (entries store)\<rparr>)),
      observer = (\<lambda>c. None)\<rparr>"

definition ex_service :: "string \<Rightarrow> ServiceDefinition" where
  "ex_service n = \<lparr>name = n, url = Some (''http://'' @ n), typeDefs = ''type Query''\<rparr>"

text \<open>A service without type definitions: composition reports it.\<close>

definition ex_broken_service :: ServiceDefinition where
  "ex_broken_service = \<lparr>name = ''accounts'', url = None, typeDefs = []\<rparr>"

text \<open>The environment in which every callback throws.\<close>

definition ex_env_throwing :: Env where
  "ex_env_throwing = ex_env\<lparr>observer := \<lambda>c. Some (Error ''observer failed'')\<rparr>"

definition ex_config :: GatewayConfig where
  "ex_config =
     \<lparr>debug = None, exposeQueryPlanExperimental = None, buildService = False,
      serviceList = Some [\<lparr>name = ''accounts'', url = Some ''http://accounts'', typeDefs = []\<rparr>],
      introspectionHeaders = None,
      config_didResolveQueryPlan = True, config_didFailComposition = True,
      config_didUpdateSchema = True, config_didUpdateServiceList = True,
      config_getServiceList = False, localServiceList = None\<rparr>"

definition ex_local_config :: GatewayConfig where
  "ex_local_config =
     ex_config\<lparr>serviceList := None, localServiceList := Some [ex_service ''accounts'']\<rparr>"

text \<open>The instance \<^verbatim>\<open>new ApolloGateway(ex_config)\<close>: nothing loaded yet.\<close>

definition ex_gateway :: ApolloGateway where
  "ex_gateway =
     \<lparr>schema = None, isReady = False, serviceMap = [],
      config = ex_config\<lparr>exposeQueryPlanExperimental := Some True\<rparr>,
      logger = [], queryPlanStore = Some \<lparr>maxSize = 31457280, entries = []\<rparr>,
      experimental_didResolveQueryPlan = True,
      experimental_didFailComposition = True,
      experimental_didUpdateSchema = True,
      experimental_didUpdateServiceList = True,
      experimental_getServiceList = False,
      callbacks = []\<rparr>"

text \<open>The instance \<^verbatim>\<open>new ApolloGateway(ex_local_config)\<close>: composed from one service.\<close>

definition ex_gateway_local :: ApolloGateway where
  "ex_gateway_local =
     \<lparr>schema = Some (wrapSchemaWithAliasResolver (fst (ex_compose [ex_service ''accounts'']))),
      isReady = True,
      serviceMap = [(''accounts'', RemoteGraphQLDataSource (Some ''http://accounts''))],
      config = ex_local_config\<lparr>exposeQueryPlanExperimental := Some True\<rparr>,
      logger = [Debug (''Composing schema from service list: '' @ [CHR 0x0A] @ ''  accounts''),
                Debug ''Schema loaded and ready for execution''],
      queryPlanStore = Some \<lparr>maxSize = 31457280, entries = []\<rparr>,
      experimental_didResolveQueryPlan = True,
      experimental_didFailComposition = True,
      experimental_didUpdateSchema = True,
      experimental_didUpdateServiceList = True,
      experimental_getServiceList = False,
      callbacks = []\<rparr>"

text \<open>A request, by the value of its \<^verbatim>\<open>Apollo-Query-Plan-Experimental\<close> header.\<close>

definition ex_http :: "string option \<Rightarrow> HTTPRequest" where
  "ex_http hdr =
     \<lparr>headers = (\<lambda>n. if n = ''Apollo-Query-Plan-Experimental'' then hdr else None)\<rparr>"

definition ex_request :: "string option \<Rightarrow> GraphQLRequestContext" where
  "ex_request hdr =
     \<lparr>request = \<lparr>operationName = None, http = Some (ex_http hdr)\<rparr>,
      document = ''{ me }'', queryHash = ''5f2c''\<rparr>"

text \<open>The operation context of \<open>ex_request\<close> on \<open>ex_gateway_local\<close>.\<close>

definition ex_operationContext :: OperationContext where
  "ex_operationContext =
     \<lparr>oc_schema = wrapSchemaWithAliasResolver (fst (ex_compose [ex_service ''accounts''])),
      oc_operation = ''{ me }'', oc_operationName = None, oc_fragments = []\<rparr>"

text \<open>
  \<open>ex_gateway_local\<close> after it has served \<open>ex_request\<close>, and after a second composition,
  from another service list, that followed.
\<close>

definition ex_gateway_cached :: ApolloGateway where
  "ex_gateway_cached = snd (executor ex_env (ex_request None) ex_gateway_local)"

definition ex_gateway_recomposed :: ApolloGateway where
  "ex_gateway_recomposed = snd (createSchema ex_env [ex_service ''products''] ex_gateway_cached)"

section \<open>Properties\<close>

subsection \<open>Evaluation of the concrete instances\<close>

lemmas ex_defs = ex_env_def ex_env_throwing_def ex_broken_service_def ex_compose_def
  ex_field_def ex_service_def ex_config_def
  ex_local_config_def ex_gateway_def ex_gateway_local_def ex_request_def ex_http_def
  ex_operationContext_def ex_buildQueryPlan_def

lemmas gw_defs = createSchema_def logger_debug_def logger_warn_def fire_def
  wrapSchemaWithAliasResolver_def wrapType_def wrapFields_def isObjectType_def
  isIntrospectionType_def truthy_def isLocalConfig_def buildHandle_def
  initializeQueryPlanStore_def load_def loadServiceDefinitions_def executor_def
  resolveQueryPlan_def storeQueryPlan_def shouldShowQueryPlan_def schema_nonNull_def
  new_ApolloGateway_def

lemma new_ex_gateway: "new_ApolloGateway ex_env ex_config = Inr ex_gateway"
  by (simp add: ex_defs gw_defs)

lemma new_ex_gateway_local: "new_ApolloGateway ex_env ex_local_config = Inr ex_gateway_local"
  by (simp add: ex_defs gw_defs)

subsection \<open>What a method leaves unchanged\<close>

lemma createServices_fields:
  "\<exists>m. snd (createServices env svcs gw) = gw\<lparr>serviceMap := m\<rparr>"
proof (induction svcs arbitrary: gw)
  case Nil
  have "gw = gw\<lparr>serviceMap := serviceMap gw\<rparr>" by simp
  then show ?case by (metis createServices.simps(1) snd_conv)
next
  case (Cons s svcs)
  show ?case
  proof (cases "\<not> truthy (url s) \<and> \<not> isLocalConfig (config gw)")
    case True
    have "gw = gw\<lparr>serviceMap := serviceMap gw\<rparr>" by simp
    with True show ?thesis by (metis createServices.simps(2) snd_conv)
  next
    case False
    obtain m where "snd (createServices env svcs
        (gw\<lparr>serviceMap := AList.update (name s) (buildHandle env gw s) (serviceMap gw)\<rparr>))
      = (gw\<lparr>serviceMap := AList.update (name s) (buildHandle env gw s) (serviceMap gw)\<rparr>)
          \<lparr>serviceMap := m\<rparr>"
      using Cons.IH by blast
    with False show ?thesis by (auto intro: exI [of _ m])
  qed
qed



lemma createServices_result:
  assumes "createServices env svcs gw = (r, gw')"
  shows "\<exists>m. gw' = gw\<lparr>serviceMap := m\<rparr>"
  using createServices_fields [of env svcs gw] assms by simp

lemma createSchema_success:
  assumes "createSchema env services gw = (Inr u, gw')"
  shows "isReady gw' \<and>
         schema gw' = Some (wrapSchemaWithAliasResolver (fst (composeAndValidate env services)))"
  using assms
  by (auto simp: createSchema_def Let_def logger_debug_def fire_def
           split: prod.splits list.splits sum.splits option.splits if_splits
           dest!: createServices_result)

lemma createSchema_queryPlanStore:
  "queryPlanStore (snd (createSchema env services gw)) = queryPlanStore gw"
  by (auto simp: createSchema_def Let_def logger_debug_def fire_def
           split: prod.splits list.splits sum.splits option.splits if_splits
           dest!: createServices_result)


lemma createSchema_config: "config (snd (createSchema env services gw)) = config gw"
  by (auto simp: createSchema_def Let_def logger_debug_def fire_def
           split: prod.splits list.splits sum.splits option.splits if_splits
           dest!: createServices_result)

lemma createSchema_invariant:
  assumes "schemaInvariant gw" and "createSchema env services gw = (r, gw')"
  shows "schemaInvariant gw'"
  using assms
  by (auto simp: schemaInvariant_def createSchema_def Let_def logger_debug_def fire_def
           split: prod.splits list.splits sum.splits option.splits if_splits
           dest!: createServices_result)

lemma loadServiceDefinitions_result:
  assumes "loadServiceDefinitions env cfg gw = (r, gw')"
  shows "\<exists>m. gw' = gw\<lparr>serviceMap := m\<rparr>"
proof -
  have "gw' = gw\<lparr>serviceMap := serviceMap gw'\<rparr>"
    using assms
    by (auto simp: loadServiceDefinitions_def
             split: option.splits sum.splits prod.splits dest!: createServices_result)
  then show ?thesis by blast
qed

lemma load_invariant:
  assumes "schemaInvariant gw" and "load env gw = (r, gw')"
  shows "schemaInvariant gw'"
proof (cases "isReady gw")
  case True
  with assms show ?thesis by (simp add: load_def)
next
  case False
  define gw1 where "gw1 = logger_debug ''Loading configuration for Gateway'' gw"
  have i1: "schemaInvariant gw1"
    using assms(1) by (simp add: gw1_def schemaInvariant_def logger_debug_def)
  obtain r2 gw2 where l2: "(if experimental_getServiceList gw1
                  then (getServiceList_fn env (config gw1), gw1)
                  else loadServiceDefinitions env (config gw1) gw1) = (r2, gw2)"
    by (cases "(if experimental_getServiceList gw1
                  then (getServiceList_fn env (config gw1), gw1)
                  else loadServiceDefinitions env (config gw1) gw1)") blast
  have i2: "schemaInvariant gw2"
    using l2 i1
    by (auto simp: schemaInvariant_def split: if_splits dest!: loadServiceDefinitions_result)
  show ?thesis
  proof (cases r2)
    case (Inl err)
    with False assms(2) l2 i2 show ?thesis
      by (simp add: load_def Let_def gw1_def [symmetric])
  next
    case (Inr services)
    define gw2' where "gw2' = logger_debug ''Configuration loaded for Gateway'' gw2"
    have i2': "schemaInvariant gw2'"
      using i2 by (simp add: gw2'_def schemaInvariant_def logger_debug_def)
    obtain r3 gw3 where l3: "createSchema env services gw2' = (r3, gw3)"
      by (cases "createSchema env services gw2'") blast
    have "schemaInvariant gw3" using createSchema_invariant [OF i2' l3] .
    moreover have "gw' = gw3"
      using False assms(2) l2 Inr l3
      by (auto simp: load_def Let_def gw1_def [symmetric] gw2'_def [symmetric] split: sum.splits)
    ultimately show ?thesis by simp
  qed
qed

lemma load_success:
  assumes "load env gw = (Inr r, gw')"
  shows "isReady gw' \<and> r = schema gw'"
proof (cases "isReady gw")
  case True
  with assms show ?thesis by (auto simp: load_def)
next
  case False
  define gw1 where "gw1 = logger_debug ''Loading configuration for Gateway'' gw"
  obtain r2 gw2 where l2: "(if experimental_getServiceList gw1
                  then (getServiceList_fn env (config gw1), gw1)
                  else loadServiceDefinitions env (config gw1) gw1) = (r2, gw2)"
    by (cases "(if experimental_getServiceList gw1
                  then (getServiceList_fn env (config gw1), gw1)
                  else loadServiceDefinitions env (config gw1) gw1)") blast
  show ?thesis
  proof (cases r2)
    case (Inl err)
    with False assms l2 show ?thesis
      by (simp add: load_def Let_def gw1_def [symmetric])
  next
    case (Inr services)
    define gw2' where "gw2' = logger_debug ''Configuration loaded for Gateway'' gw2"
    obtain r3 gw3 where l3: "createSchema env services gw2' = (r3, gw3)"
      by (cases "createSchema env services gw2'") blast
    show ?thesis
    proof (cases r3)
      case (Inl err)
      with False assms l2 \<open>r2 = Inr services\<close> l3 show ?thesis
        by (simp add: load_def Let_def gw1_def [symmetric] gw2'_def [symmetric])
    next
      case (Inr u)
      with False assms l2 \<open>r2 = Inr services\<close> l3 have "gw' = gw3" "r = schema gw3"
        by (auto simp add: load_def Let_def gw1_def [symmetric] gw2'_def [symmetric])
      moreover have "isReady gw3" using createSchema_success l3 Inr by blast
      ultimately show ?thesis by simp
    qed
  qed
qed

lemma storeQueryPlan_result:
  "\<exists>l q. storeQueryPlan env key qp gw = gw\<lparr>logger := l, queryPlanStore := q\<rparr>"
proof -
  have "storeQueryPlan env key qp gw =
        gw\<lparr>logger := logger (storeQueryPlan env key qp gw),
           queryPlanStore := queryPlanStore (storeQueryPlan env key qp gw)\<rparr>"
    by (simp add: storeQueryPlan_def logger_warn_def split: option.splits promise.splits)
  then show ?thesis by blast
qed

lemma resolveQueryPlan_result:
  assumes "resolveQueryPlan env rc oc gw = (r, gw')"
  shows "\<exists>l q. gw' = gw\<lparr>logger := l, queryPlanStore := q\<rparr>"
proof -
  have "gw' = gw \<or> (\<exists>qp. gw' = storeQueryPlan env (queryHash rc) qp gw)"
    using assms
    by (auto simp: resolveQueryPlan_def split: option.splits sum.splits)
  moreover have "gw = gw\<lparr>logger := logger gw, queryPlanStore := queryPlanStore gw\<rparr>" by simp
  ultimately show ?thesis using storeQueryPlan_result by metis
qed

lemma executor_result:
  assumes "executor env rc gw = (r, gw')"
  shows "schema gw' = schema gw \<and> isReady gw' = isReady gw \<and> serviceMap gw' = serviceMap gw
         \<and> config gw' = config gw"
  using assms
  by (auto simp: executor_def Let_def logger_debug_def fire_def
           split: option.splits sum.splits prod.splits if_splits
           dest!: resolveQueryPlan_result)

subsection \<open>Composition failure\<close>

lemma createSchema_failure:
  assumes "composeAndValidate env services = (composed, Some errs)" and "errs \<noteq> []"
  shows "createSchema env services gw =
     ((if experimental_didFailComposition gw
       then (case observer env (DidFailComposition errs services) of
               None \<Rightarrow> Inl (GraphQLSchemaValidationError errs)
             | Some thrown \<Rightarrow> Inl thrown)
       else Inl (GraphQLSchemaValidationError errs)),
      gw\<lparr>logger := logger gw @ [Debug (''Composing schema from service list: '' @ [CHR 0x0A]
                   @ join [CHR 0x0A] (map (\<lambda>s. ''  '' @ name s) services))],
         callbacks := callbacks gw @
           (if experimental_didFailComposition gw then [DidFailComposition errs services]
            else [])\<rparr>)"
  using assms
  by (cases errs)
     (simp_all add: createSchema_def logger_debug_def fire_def split: option.splits)

lemma new_ApolloGateway_didFailComposition:
  assumes "new_ApolloGateway env cfg = Inr gw"
  shows "experimental_didFailComposition gw = config_didFailComposition (config gw)"
proof (cases "localServiceList cfg")
  case None
  with assms show ?thesis
    by (auto simp: new_ApolloGateway_def Let_def initializeQueryPlanStore_def
             split: if_splits)
next
  case (Some local)
  define gw1 where "gw1 =
    (let gw0 = \<lparr>schema = None, isReady = False, serviceMap = [],
                 config = cfg\<lparr>exposeQueryPlanExperimental :=
                            (case exposeQueryPlanExperimental cfg of
                               None \<Rightarrow> Some (NODE_ENV env \<noteq> Some ''production'')
                             | Some b \<Rightarrow> Some b)\<rparr>,
                 logger = [], queryPlanStore = None,
                 experimental_didResolveQueryPlan = False,
                 experimental_didFailComposition = False,
                 experimental_didUpdateSchema = False,
                 experimental_didUpdateServiceList = False,
                 experimental_getServiceList = False,
                 callbacks = []\<rparr>
     in if debug cfg = Some True then gw0\<lparr>logger := logger gw0 @ [EnableAll]\<rparr> else gw0)"
  have c1: "config_didFailComposition (config gw1) = config_didFailComposition cfg"
    by (simp add: gw1_def Let_def)
  have "config gw = config (snd (createSchema env local gw1))
        \<and> experimental_didFailComposition gw = config_didFailComposition cfg"
    using Some assms
    by (auto simp: new_ApolloGateway_def gw1_def [unfolded Let_def, symmetric] Let_def
          initializeQueryPlanStore_def split: sum.splits prod.splits)
  with c1 show ?thesis by (simp add: createSchema_config)
qed

text \<open>
  Claim C2, as the specification states it, fails. Nothing catches what the observer
  throws: when it throws, its exception leaves \<^verbatim>\<open>createSchema\<close> in place of
  \<^verbatim>\<open>GraphQLSchemaValidationError\<close>. And the constructor composes a local config before
  it takes the callbacks from the config: a local config with an observer whose
  composition fails ends in \<^verbatim>\<open>GraphQLSchemaValidationError\<close> although its observer throws
  whenever it is called, so the observer was not called.
\<close>

theorem composition_failure_observer_counterexample:
  "composeAndValidate ex_env_throwing [ex_broken_service]
     = (fst (ex_compose [ex_broken_service]), Some [''No typeDefs for accounts''])
   \<and> experimental_didFailComposition ex_gateway_local
   \<and> fst (createSchema ex_env_throwing [ex_broken_service] ex_gateway_local)
       = Inl (Error ''observer failed'')
   \<and> config_didFailComposition
        (ex_config\<lparr>serviceList := None, localServiceList := Some [ex_broken_service]\<rparr>)
   \<and> new_ApolloGateway ex_env_throwing
        (ex_config\<lparr>serviceList := None, localServiceList := Some [ex_broken_service]\<rparr>)
       = Inl (GraphQLSchemaValidationError [''No typeDefs for accounts''])"
  by (simp add: ex_defs gw_defs)

text \<open>
  Claim C2, amended. Every constructed instance holds, in its field
  \<^verbatim>\<open>experimental_didFailComposition\<close>, the observer of its config (lemma
  \<open>new_ApolloGateway_didFailComposition\<close>). On such an instance, when composition of a
  service list yields one or more errors, \<^verbatim>\<open>createSchema\<close> adopts nothing: schema, service
  map, readiness and plan store are what they were. The observer, when configured, is
  called once, with the errors and the service list, and no other callback is called.
  \<^verbatim>\<open>createSchema\<close> then throws \<^verbatim>\<open>GraphQLSchemaValidationError\<close> with the errors, unless
  the observer threw: then the exception of the observer leaves \<^verbatim>\<open>createSchema\<close>.
\<close>

theorem createSchema_composition_failure:
  assumes "composeAndValidate env services = (composed, Some errs)" and "errs \<noteq> []"
    and "experimental_didFailComposition gw = config_didFailComposition (config gw)"
  shows "schema (snd (createSchema env services gw)) = schema gw
    \<and> serviceMap (snd (createSchema env services gw)) = serviceMap gw
    \<and> isReady (snd (createSchema env services gw)) = isReady gw
    \<and> queryPlanStore (snd (createSchema env services gw)) = queryPlanStore gw
    \<and> callbacks (snd (createSchema env services gw)) =
        callbacks gw @ (if config_didFailComposition (config gw)
                        then [DidFailComposition errs services] else [])
    \<and> fst (createSchema env services gw) =
        (if config_didFailComposition (config gw)
         then (case observer env (DidFailComposition errs services) of
                 None \<Rightarrow> Inl (GraphQLSchemaValidationError errs)
               | Some thrown \<Rightarrow> Inl thrown)
         else Inl (GraphQLSchemaValidationError errs))"
  using assms(3) by (simp add: createSchema_failure [OF assms(1,2)])

theorem createSchema_composition_failure_witness:
  "new_ApolloGateway ex_env ex_local_config = Inr ex_gateway_local
   \<and> composeAndValidate ex_env [ex_broken_service]
       = (fst (ex_compose [ex_broken_service]), Some [''No typeDefs for accounts''])
   \<and> experimental_didFailComposition ex_gateway_local
       = config_didFailComposition (config ex_gateway_local)
   \<and> config_didFailComposition (config ex_gateway_local)
   \<and> observer ex_env
        (DidFailComposition [''No typeDefs for accounts''] [ex_broken_service]) = None
   \<and> fst (createSchema ex_env [ex_broken_service] ex_gateway_local)
       = Inl (GraphQLSchemaValidationError [''No typeDefs for accounts''])
   \<and> schema (snd (createSchema ex_env [ex_broken_service] ex_gateway_local))
       = schema ex_gateway_local
   \<and> serviceMap (snd (createSchema ex_env [ex_broken_service] ex_gateway_local))
       = [(''accounts'', RemoteGraphQLDataSource (Some ''http://accounts''))]
   \<and> isReady (snd (createSchema ex_env [ex_broken_service] ex_gateway_local))
   \<and> callbacks (snd (createSchema ex_env [ex_broken_service] ex_gateway_local))
       = [DidFailComposition [''No typeDefs for accounts''] [ex_broken_service]]
   \<and> fst (createSchema ex_env_throwing [ex_broken_service] ex_gateway_local)
       = Inl (Error ''observer failed'')
   \<and> schema (snd (createSchema ex_env_throwing [ex_broken_service] ex_gateway_local))
       = schema ex_gateway_local
   \<and> callbacks (snd (createSchema ex_env_throwing [ex_broken_service] ex_gateway_local))
       = [DidFailComposition [''No typeDefs for accounts''] [ex_broken_service]]"
proof -
  have h1: "composeAndValidate ex_env [ex_broken_service]
       = (fst (ex_compose [ex_broken_service]), Some [''No typeDefs for accounts''])"
    by (simp add: ex_env_def ex_compose_def ex_broken_service_def)
  have h1': "composeAndValidate ex_env_throwing [ex_broken_service]
       = (fst (ex_compose [ex_broken_service]), Some [''No typeDefs for accounts''])"
    by (simp add: ex_env_throwing_def ex_env_def ex_compose_def ex_broken_service_def)
  have h2: "[''No typeDefs for accounts''] \<noteq> []" by simp
  have h3: "experimental_didFailComposition ex_gateway_local
       = config_didFailComposition (config ex_gateway_local)"
    by (simp add: ex_gateway_local_def ex_local_config_def ex_config_def)
  have h4: "config_didFailComposition (config ex_gateway_local)"
    by (simp add: ex_gateway_local_def ex_local_config_def ex_config_def)
  have h5: "observer ex_env
        (DidFailComposition [''No typeDefs for accounts''] [ex_broken_service]) = None"
    by (simp add: ex_env_def)
  have h6: "observer ex_env_throwing
        (DidFailComposition [''No typeDefs for accounts''] [ex_broken_service])
       = Some (Error ''observer failed'')"
    by (simp add: ex_env_throwing_def)
  have h7: "serviceMap ex_gateway_local
       = [(''accounts'', RemoteGraphQLDataSource (Some ''http://accounts''))]"
       "isReady ex_gateway_local" "callbacks ex_gateway_local = []"
    by (simp_all add: ex_gateway_local_def)
  show ?thesis
    using new_ex_gateway_local h1 h3 h4 h5 h6 h7
      createSchema_composition_failure [OF h1 h2 h3]
      createSchema_composition_failure [OF h1' h2 h3]
    by simp
qed

subsection \<open>Loading twice\<close>

text \<open>
  Claim C9. On an instance that is ready, \<^verbatim>\<open>load\<close> loads no service list and composes
  nothing: the instance, with its schema, service map and plan store, is unchanged,
  nothing is logged, and the schema of the instance is returned. Hence a \<^verbatim>\<open>load\<close> that
  follows a successful \<^verbatim>\<open>load\<close> returns what the first one returned and changes nothing,
  whatever the service list would be by then.
\<close>

theorem load_idempotent_after_success:
  "(isReady gw \<longrightarrow> load env gw = (Inr (schema gw), gw)) \<and>
   (fst (load env gw) = Inr r \<longrightarrow>
      load env' (snd (load env gw)) = (Inr r, snd (load env gw)))"
proof (intro conjI impI)
  assume "isReady gw"
  then show "load env gw = (Inr (schema gw), gw)" by (simp add: load_def)
next
  assume a: "fst (load env gw) = Inr r"
  then have "load env gw = (Inr r, snd (load env gw))" by (metis prod.collapse)
  from load_success [OF this] show "load env' (snd (load env gw)) = (Inr r, snd (load env gw))"
    by (simp add: load_def)
qed

lemma load_ex_gateway:
  "fst (load ex_env ex_gateway)
   = Inr (Some (wrapSchemaWithAliasResolver (fst (ex_compose [ex_service ''accounts'']))))"
  by (simp add: ex_defs gw_defs)

theorem load_idempotent_after_success_witness:
  "isReady ex_gateway_local
   \<and> load ex_env ex_gateway_local = (Inr (schema ex_gateway_local), ex_gateway_local)
   \<and> fst (load ex_env ex_gateway)
      = Inr (Some (wrapSchemaWithAliasResolver (fst (ex_compose [ex_service ''accounts'']))))
   \<and> load (ex_env\<lparr>getServiceDefinitionsFromRemoteEndpoint :=
                    \<lambda>listed hdrs. Inr [ex_service ''products'']\<rparr>)
        (snd (load ex_env ex_gateway))
      = (Inr (Some (wrapSchemaWithAliasResolver (fst (ex_compose [ex_service ''accounts''])))),
         snd (load ex_env ex_gateway))"
proof -
  have h1: "isReady ex_gateway_local" by (simp add: ex_gateway_local_def)
  note h2 = load_ex_gateway
  show ?thesis
    using h1 h2
      load_idempotent_after_success [of ex_gateway_local ex_env]
      load_idempotent_after_success
        [of ex_gateway ex_env
            "Some (wrapSchemaWithAliasResolver (fst (ex_compose [ex_service ''accounts''])))"
            "ex_env\<lparr>getServiceDefinitionsFromRemoteEndpoint :=
                      \<lambda>listed hdrs. Inr [ex_service ''products'']\<rparr>"]
    by simp
qed

subsection \<open>A ready instance has a schema\<close>

lemma createServices_invariant:
  assumes "schemaInvariant gw"
  shows "schemaInvariant (snd (createServices env services gw))"
proof -
  obtain m where "snd (createServices env services gw) = gw\<lparr>serviceMap := m\<rparr>"
    using createServices_fields by blast
  with assms show ?thesis by (simp add: schemaInvariant_def)
qed

lemma loadServiceDefinitions_invariant:
  assumes "schemaInvariant gw"
  shows "schemaInvariant (snd (loadServiceDefinitions env cfg gw))"
proof -
  obtain m where "snd (loadServiceDefinitions env cfg gw) = gw\<lparr>serviceMap := m\<rparr>"
    using loadServiceDefinitions_result [of env cfg gw] by (metis prod.collapse)
  with assms show ?thesis by (simp add: schemaInvariant_def)
qed

lemma executor_invariant:
  assumes "schemaInvariant gw"
  shows "schemaInvariant (snd (executor env rc gw))"
  using assms executor_result [of env rc gw]
  by (metis prod.collapse schemaInvariant_def)

lemma new_ApolloGateway_invariant:
  assumes "new_ApolloGateway env cfg = Inr gw"
  shows "schemaInvariant gw \<and> (isLocalConfig cfg \<longrightarrow> isReady gw)"
proof (cases "localServiceList cfg")
  case None
  with assms show ?thesis
    by (auto simp: new_ApolloGateway_def Let_def initializeQueryPlanStore_def
        schemaInvariant_def isLocalConfig_def split: if_splits)
next
  case (Some local)
  define gw1 where "gw1 =
    (let gw0 = \<lparr>schema = None, isReady = False, serviceMap = [],
                 config = cfg\<lparr>exposeQueryPlanExperimental :=
                            (case exposeQueryPlanExperimental cfg of
                               None \<Rightarrow> Some (NODE_ENV env \<noteq> Some ''production'')
                             | Some b \<Rightarrow> Some b)\<rparr>,
                 logger = [], queryPlanStore = None,
                 experimental_didResolveQueryPlan = False,
                 experimental_didFailComposition = False,
                 experimental_didUpdateSchema = False,
                 experimental_didUpdateServiceList = False,
                 experimental_getServiceList = False,
                 callbacks = []\<rparr>
     in if debug cfg = Some True then gw0\<lparr>logger := logger gw0 @ [EnableAll]\<rparr> else gw0)"
  obtain r gw2 where c: "createSchema env local gw1 = (r, gw2)"
    by (cases "createSchema env local gw1") blast
  have eq: "new_ApolloGateway env cfg =
      (case r of Inl err \<Rightarrow> Inl err
       | Inr u \<Rightarrow> Inr ((initializeQueryPlanStore gw2)
                    \<lparr>experimental_didResolveQueryPlan := config_didResolveQueryPlan cfg,
                     experimental_didFailComposition := config_didFailComposition cfg,
                     experimental_didUpdateSchema := config_didUpdateSchema cfg,
                     experimental_didUpdateServiceList := config_didUpdateServiceList cfg,
                     experimental_getServiceList := config_getServiceList cfg\<rparr>))"
    using Some c by (simp add: new_ApolloGateway_def gw1_def Let_def split: sum.splits)
  show ?thesis
  proof (cases r)
    case (Inl err)
    with eq assms show ?thesis by simp
  next
    case (Inr u)
    with c have "isReady gw2 \<and> schema gw2 \<noteq> None" using createSchema_success by blast
    with eq assms Inr show ?thesis
      by (auto simp: schemaInvariant_def initializeQueryPlanStore_def)
  qed
qed

lemma createSchema_keeps_ready:
  assumes "isReady gw"
  shows "isReady (snd (createSchema env services gw))"
  using assms
  by (auto simp: createSchema_def Let_def logger_debug_def fire_def
           split: prod.splits list.splits sum.splits option.splits if_splits
           dest!: createServices_result)

text \<open>
  Claim C10. Every operation keeps the invariant that a ready instance has a schema: the
  constructor establishes it, and \<^verbatim>\<open>createSchema\<close>, \<^verbatim>\<open>createServices\<close>,
  \<^verbatim>\<open>loadServiceDefinitions\<close>, \<^verbatim>\<open>load\<close> and the executor preserve it, whether they
  return or throw. So after a \<^verbatim>\<open>load\<close> that succeeded, and on an instance constructed
  from a local config, the instance is ready and the dereference \<^verbatim>\<open>this.schema!\<close> of
  the executor yields a schema. Readiness lasts: a request leaves schema and readiness as
  they are, and a later composition never makes a ready instance unready.
\<close>

theorem isReady_implies_schema:
  "(new_ApolloGateway env cfg = Inr gw0 \<longrightarrow> schemaInvariant gw0)
   \<and> (schemaInvariant gw \<longrightarrow>
        schemaInvariant (snd (createSchema env services gw))
      \<and> schemaInvariant (snd (createServices env services gw))
      \<and> schemaInvariant (snd (loadServiceDefinitions env cfg' gw))
      \<and> schemaInvariant (snd (load env gw))
      \<and> schemaInvariant (snd (executor env rc gw)))
   \<and> (schemaInvariant gw \<and> fst (load env gw) = Inr r \<longrightarrow>
        isReady (snd (load env gw))
      \<and> (\<exists>sch. schema_nonNull (snd (load env gw)) = Inr sch))
   \<and> (new_ApolloGateway env cfg = Inr gw0 \<and> isLocalConfig cfg \<longrightarrow>
        isReady gw0 \<and> (\<exists>sch. schema_nonNull gw0 = Inr sch))
   \<and> schema (snd (executor env rc gw)) = schema gw
   \<and> isReady (snd (executor env rc gw)) = isReady gw
   \<and> (isReady gw \<longrightarrow> isReady (snd (createSchema env services gw)))"
proof (intro conjI impI)
  assume "new_ApolloGateway env cfg = Inr gw0"
  then show "schemaInvariant gw0" using new_ApolloGateway_invariant by blast
next
  assume "schemaInvariant gw"
  then show "schemaInvariant (snd (createSchema env services gw))"
    using createSchema_invariant by (metis prod.collapse)
next
  assume "schemaInvariant gw"
  then show "schemaInvariant (snd (createServices env services gw))"
    by (rule createServices_invariant)
next
  assume "schemaInvariant gw"
  then show "schemaInvariant (snd (loadServiceDefinitions env cfg' gw))"
    by (rule loadServiceDefinitions_invariant)
next
  assume "schemaInvariant gw"
  then show "schemaInvariant (snd (load env gw))"
    using load_invariant by (metis prod.collapse)
next
  assume "schemaInvariant gw"
  then show "schemaInvariant (snd (executor env rc gw))"
    by (rule executor_invariant)
next
  assume a: "schemaInvariant gw \<and> fst (load env gw) = Inr r"
  then have l: "load env gw = (Inr r, snd (load env gw))" by (metis prod.collapse)
  from load_success [OF l] show "isReady (snd (load env gw))" by simp
next
  assume a: "schemaInvariant gw \<and> fst (load env gw) = Inr r"
  then have l: "load env gw = (Inr r, snd (load env gw))" by (metis prod.collapse)
  have "isReady (snd (load env gw))" using load_success [OF l] by simp
  moreover have "schemaInvariant (snd (load env gw))"
    using a load_invariant l by blast
  ultimately show "\<exists>sch. schema_nonNull (snd (load env gw)) = Inr sch"
    by (auto simp: schemaInvariant_def schema_nonNull_def)
next
  assume a: "new_ApolloGateway env cfg = Inr gw0 \<and> isLocalConfig cfg"
  then show "isReady gw0" using new_ApolloGateway_invariant by blast
next
  assume a: "new_ApolloGateway env cfg = Inr gw0 \<and> isLocalConfig cfg"
  then have "isReady gw0" "schemaInvariant gw0" using new_ApolloGateway_invariant by blast+
  then show "\<exists>sch. schema_nonNull gw0 = Inr sch"
    by (auto simp: schemaInvariant_def schema_nonNull_def)
next
  show "schema (snd (executor env rc gw)) = schema gw"
    using executor_result [of env rc gw] by (metis prod.collapse)
next
  show "isReady (snd (executor env rc gw)) = isReady gw"
    using executor_result [of env rc gw] by (metis prod.collapse)
next
  assume "isReady gw"
  then show "isReady (snd (createSchema env services gw))"
    by (rule createSchema_keeps_ready)
qed

theorem isReady_implies_schema_witness:
  "new_ApolloGateway ex_env ex_local_config = Inr ex_gateway_local
   \<and> isLocalConfig ex_local_config
   \<and> schemaInvariant ex_gateway
   \<and> fst (load ex_env ex_gateway)
      = Inr (Some (wrapSchemaWithAliasResolver (fst (ex_compose [ex_service ''accounts'']))))
   \<and> schemaInvariant ex_gateway_local
   \<and> schemaInvariant (snd (createSchema ex_env [ex_service ''products''] ex_gateway))
   \<and> schemaInvariant (snd (createServices ex_env [ex_service ''products''] ex_gateway))
   \<and> schemaInvariant (snd (loadServiceDefinitions ex_env ex_config ex_gateway))
   \<and> schemaInvariant (snd (load ex_env ex_gateway))
   \<and> schemaInvariant (snd (executor ex_env (ex_request None) ex_gateway))
   \<and> isReady (snd (load ex_env ex_gateway))
   \<and> (\<exists>sch. schema_nonNull (snd (load ex_env ex_gateway)) = Inr sch)
   \<and> isReady ex_gateway_local
   \<and> (\<exists>sch. schema_nonNull ex_gateway_local = Inr sch)"
proof -
  note h1 = new_ex_gateway_local
  have h2: "isLocalConfig ex_local_config"
    by (simp add: isLocalConfig_def ex_local_config_def)
  have h3: "schemaInvariant ex_gateway"
    by (simp add: schemaInvariant_def ex_gateway_def)
  note h4 = load_ex_gateway
  show ?thesis
    using h1 h2 h3 h4
      isReady_implies_schema
        [of ex_env ex_local_config ex_gateway_local ex_gateway "[ex_service ''products'']"
            ex_config "ex_request None"
            "Some (wrapSchemaWithAliasResolver (fst (ex_compose [ex_service ''accounts''])))"]
    by simp
qed

subsection \<open>The alias resolver\<close>

lemma createSchema_adopts:
  assumes "snd (composeAndValidate env services) = None
           \<or> snd (composeAndValidate env services) = Some []"
  shows "schema (snd (createSchema env services gw)) =
           Some (wrapSchemaWithAliasResolver (fst (composeAndValidate env services)))"
  using assms
  by (auto simp: createSchema_def Let_def logger_debug_def fire_def
           split: prod.splits list.splits sum.splits option.splits if_splits
           dest!: createServices_result)

lemma wrapType_kind: "isObjectType (wrapType t) = isObjectType t"
  by (simp add: wrapType_def isObjectType_def)

lemma wrapType_name: "isIntrospectionType (wrapType t) = isIntrospectionType t"
  by (simp add: wrapType_def isIntrospectionType_def)

lemma wrapSchema_resolve:
  assumes "(typeName, t) \<in> set (typeMap (wrapSchemaWithAliasResolver sch))"
    and "isObjectType t" and "\<not> isIntrospectionType t"
    and "(fname, field) \<in> set (type_fields t)"
  shows "resolve field = Some defaultFieldResolverWithAliasSupport"
proof -
  from assms(1) obtain t0 where t0: "t = wrapType t0"
    by (auto simp: wrapSchemaWithAliasResolver_def)
  with assms(2,3) have "isObjectType t0" "\<not> isIntrospectionType t0"
    by (simp_all add: wrapType_kind wrapType_name)
  with t0 have "type_fields t = wrapFields (type_fields t0)"
    by (simp add: wrapType_def)
  with assms(4) show ?thesis
    by (auto simp: wrapFields_def)
qed

lemma wrapSchema_introspection:
  assumes "i < length (typeMap sch)" and "isIntrospectionType (snd (typeMap sch ! i))"
  shows "typeMap (wrapSchemaWithAliasResolver sch) ! i = typeMap sch ! i"
  using assms
  by (simp add: wrapSchemaWithAliasResolver_def wrapType_def case_prod_beta)

lemma wrapSchema_entry:
  assumes "i < length (typeMap sch)"
  shows "typeMap (wrapSchemaWithAliasResolver sch) ! i
         = (fst (typeMap sch ! i), wrapType (snd (typeMap sch ! i)))"
  using assms by (simp add: wrapSchemaWithAliasResolver_def case_prod_beta)

lemma wrapFields_entry:
  assumes "j < length fs"
  shows "wrapFields fs ! j
         = (fst (fs ! j), (snd (fs ! j))\<lparr>resolve := Some defaultFieldResolverWithAliasSupport\<rparr>)"
  using assms by (simp add: wrapFields_def case_prod_beta)

lemma wrapFields_length: "length (wrapFields fs) = length fs"
  by (simp add: wrapFields_def)

text \<open>
  Claim C8. After a composition without errors the instance holds the composed schema,
  wrapped. The wrapped schema has the types of the composed schema, in place and under
  the same names. A type that is not an object type, or is an introspection type, is the
  very type composition produced. An object type that is not an introspection type keeps
  its name and kind and has the fields of the composed type, each in place, under its
  name and with nothing changed but the resolver, which is
  \<^verbatim>\<open>defaultFieldResolverWithAliasSupport\<close>: so every field of every such type of the
  adopted schema has that resolver. The resolver reads the object a backend returned at
  the response key (the alias, when there is one) and not at the field name.
\<close>

theorem createSchema_alias_resolver:
  assumes "snd (composeAndValidate env services) = None
           \<or> snd (composeAndValidate env services) = Some []"
  shows "\<exists>adopted. schema (snd (createSchema env services gw)) = Some adopted
     \<and> (\<forall>typeName t fname field.
           (typeName, t) \<in> set (typeMap adopted) \<and> isObjectType t \<and> \<not> isIntrospectionType t
             \<and> (fname, field) \<in> set (type_fields t)
           \<longrightarrow> resolve field = Some defaultFieldResolverWithAliasSupport)
     \<and> (\<forall>source info.
           defaultFieldResolverWithAliasSupport source info = map_of source (path_key info))
     \<and> length (typeMap adopted) = length (typeMap (fst (composeAndValidate env services)))
     \<and> (\<forall>i. i < length (typeMap adopted)
               \<and> isIntrospectionType (snd (typeMap (fst (composeAndValidate env services)) ! i))
           \<longrightarrow> typeMap adopted ! i = typeMap (fst (composeAndValidate env services)) ! i)
     \<and> adopted = (fst (composeAndValidate env services))\<lparr>typeMap := typeMap adopted\<rparr>
     \<and> (\<forall>i. i < length (typeMap (fst (composeAndValidate env services))) \<longrightarrow>
           fst (typeMap adopted ! i) = fst (typeMap (fst (composeAndValidate env services)) ! i)
         \<and> snd (typeMap adopted ! i)
             = (snd (typeMap (fst (composeAndValidate env services)) ! i))
                 \<lparr>type_fields := type_fields (snd (typeMap adopted ! i))\<rparr>
         \<and> length (type_fields (snd (typeMap adopted ! i)))
             = length (type_fields (snd (typeMap (fst (composeAndValidate env services)) ! i)))
         \<and> (\<not> (isObjectType (snd (typeMap (fst (composeAndValidate env services)) ! i))
                 \<and> \<not> isIntrospectionType
                       (snd (typeMap (fst (composeAndValidate env services)) ! i)))
              \<longrightarrow> typeMap adopted ! i = typeMap (fst (composeAndValidate env services)) ! i)
         \<and> (isObjectType (snd (typeMap (fst (composeAndValidate env services)) ! i))
              \<and> \<not> isIntrospectionType (snd (typeMap (fst (composeAndValidate env services)) ! i))
              \<longrightarrow> (\<forall>j. j < length (type_fields
                                      (snd (typeMap (fst (composeAndValidate env services)) ! i)))
                    \<longrightarrow> type_fields (snd (typeMap adopted ! i)) ! j
                        = (fst (type_fields
                                  (snd (typeMap (fst (composeAndValidate env services)) ! i)) ! j),
                           (snd (type_fields
                                   (snd (typeMap (fst (composeAndValidate env services)) ! i)) ! j))
                             \<lparr>resolve := Some defaultFieldResolverWithAliasSupport\<rparr>))))"
proof -
  define composed where "composed = fst (composeAndValidate env services)"
  define adopted where "adopted = wrapSchemaWithAliasResolver composed"
  have s: "schema (snd (createSchema env services gw)) = Some adopted"
    using assms by (simp add: adopted_def composed_def createSchema_adopts)
  have r: "\<forall>typeName t fname field.
           (typeName, t) \<in> set (typeMap adopted) \<and> isObjectType t \<and> \<not> isIntrospectionType t
             \<and> (fname, field) \<in> set (type_fields t)
           \<longrightarrow> resolve field = Some defaultFieldResolverWithAliasSupport"
    unfolding adopted_def using wrapSchema_resolve by blast
  have d: "\<forall>source info.
           defaultFieldResolverWithAliasSupport source info = map_of source (path_key info)"
    by (simp add: defaultFieldResolverWithAliasSupport_def)
  have l: "length (typeMap adopted) = length (typeMap composed)"
    by (simp add: adopted_def wrapSchemaWithAliasResolver_def)
  have n: "\<forall>i. i < length (typeMap adopted) \<and> isIntrospectionType (snd (typeMap composed ! i))
           \<longrightarrow> typeMap adopted ! i = typeMap composed ! i"
    using l by (simp add: adopted_def wrapSchema_introspection)
  have a: "adopted = composed\<lparr>typeMap := typeMap adopted\<rparr>"
    by (simp add: adopted_def wrapSchemaWithAliasResolver_def)
  have p: "\<forall>i. i < length (typeMap composed) \<longrightarrow>
           fst (typeMap adopted ! i) = fst (typeMap composed ! i)
         \<and> snd (typeMap adopted ! i)
             = (snd (typeMap composed ! i))
                 \<lparr>type_fields := type_fields (snd (typeMap adopted ! i))\<rparr>
         \<and> length (type_fields (snd (typeMap adopted ! i)))
             = length (type_fields (snd (typeMap composed ! i)))
         \<and> (\<not> (isObjectType (snd (typeMap composed ! i))
                 \<and> \<not> isIntrospectionType (snd (typeMap composed ! i)))
              \<longrightarrow> typeMap adopted ! i = typeMap composed ! i)
         \<and> (isObjectType (snd (typeMap composed ! i))
              \<and> \<not> isIntrospectionType (snd (typeMap composed ! i))
              \<longrightarrow> (\<forall>j. j < length (type_fields (snd (typeMap composed ! i)))
                    \<longrightarrow> type_fields (snd (typeMap adopted ! i)) ! j
                        = (fst (type_fields (snd (typeMap composed ! i)) ! j),
                           (snd (type_fields (snd (typeMap composed ! i)) ! j))
                             \<lparr>resolve := Some defaultFieldResolverWithAliasSupport\<rparr>)))"
  proof (intro allI impI)
    fix i
    assume i: "i < length (typeMap composed)"
    have e: "typeMap adopted ! i = (fst (typeMap composed ! i), wrapType (snd (typeMap composed ! i)))"
      using i by (simp add: adopted_def wrapSchema_entry)
    show "fst (typeMap adopted ! i) = fst (typeMap composed ! i)
         \<and> snd (typeMap adopted ! i)
             = (snd (typeMap composed ! i))
                 \<lparr>type_fields := type_fields (snd (typeMap adopted ! i))\<rparr>
         \<and> length (type_fields (snd (typeMap adopted ! i)))
             = length (type_fields (snd (typeMap composed ! i)))
         \<and> (\<not> (isObjectType (snd (typeMap composed ! i))
                 \<and> \<not> isIntrospectionType (snd (typeMap composed ! i)))
              \<longrightarrow> typeMap adopted ! i = typeMap composed ! i)
         \<and> (isObjectType (snd (typeMap composed ! i))
              \<and> \<not> isIntrospectionType (snd (typeMap composed ! i))
              \<longrightarrow> (\<forall>j. j < length (type_fields (snd (typeMap composed ! i)))
                    \<longrightarrow> type_fields (snd (typeMap adopted ! i)) ! j
                        = (fst (type_fields (snd (typeMap composed ! i)) ! j),
                           (snd (type_fields (snd (typeMap composed ! i)) ! j))
                             \<lparr>resolve := Some defaultFieldResolverWithAliasSupport\<rparr>)))"
      by (simp add: e wrapType_def wrapFields_entry wrapFields_length prod_eq_iff)
  qed
  from s r d l n a p show ?thesis
    unfolding composed_def by blast
qed

theorem createSchema_alias_resolver_witness:
  "snd (composeAndValidate ex_env [ex_service ''accounts'', ex_service ''products'']) = Some []
   \<and> typeMap (fst (composeAndValidate ex_env [ex_service ''accounts'', ex_service ''products'']))
       = [(''Query'', \<lparr>type_name = ''Query'', kind = OBJECT,
                      type_fields =
                        [(''accounts'', \<lparr>field_type = ''String'', resolve = None\<rparr>),
                         (''products'', \<lparr>field_type = ''String'', resolve = None\<rparr>)]\<rparr>),
          (''__Schema'', \<lparr>type_name = ''__Schema'', kind = OBJECT,
                    type_fields = [(''types'', \<lparr>field_type = ''String'', resolve = None\<rparr>)]\<rparr>),
          (''Node'', \<lparr>type_name = ''Node'', kind = INTERFACE,
                    type_fields = [(''id'', \<lparr>field_type = ''String'', resolve = None\<rparr>)]\<rparr>),
          (''String'', \<lparr>type_name = ''String'', kind = SCALAR, type_fields = []\<rparr>)]
   \<and> schema (snd (createSchema ex_env [ex_service ''accounts'', ex_service ''products'']
                   ex_gateway))
       = Some \<lparr>typeMap =
         [(''Query'', \<lparr>type_name = ''Query'', kind = OBJECT,
                      type_fields =
                        [(''accounts'', \<lparr>field_type = ''String'',
                            resolve = Some defaultFieldResolverWithAliasSupport\<rparr>),
                         (''products'', \<lparr>field_type = ''String'',
                            resolve = Some defaultFieldResolverWithAliasSupport\<rparr>)]\<rparr>),
          (''__Schema'', \<lparr>type_name = ''__Schema'', kind = OBJECT,
                    type_fields = [(''types'', \<lparr>field_type = ''String'', resolve = None\<rparr>)]\<rparr>),
          (''Node'', \<lparr>type_name = ''Node'', kind = INTERFACE,
                    type_fields = [(''id'', \<lparr>field_type = ''String'', resolve = None\<rparr>)]\<rparr>),
          (''String'', \<lparr>type_name = ''String'', kind = SCALAR, type_fields = []\<rparr>)]\<rparr>
   \<and> defaultFieldResolverWithAliasSupport [(''renamed'', ''1''), (''fieldX'', ''2'')]
        \<lparr>fieldName = ''fieldX'', path_key = ''renamed''\<rparr> = Some ''1''"
proof -
  have h: "snd (composeAndValidate ex_env [ex_service ''accounts'', ex_service ''products''])
             = None
           \<or> snd (composeAndValidate ex_env [ex_service ''accounts'', ex_service ''products''])
             = Some []"
    by (simp add: ex_env_def ex_compose_def ex_service_def)
  obtain adopted where
    a: "schema (snd (createSchema ex_env [ex_service ''accounts'', ex_service ''products'']
                       ex_gateway)) = Some adopted"
    and r: "\<forall>source info.
           defaultFieldResolverWithAliasSupport source info = map_of source (path_key info)"
    using createSchema_alias_resolver [OF h, of ex_gateway] by blast
  have e: "schema (snd (createSchema ex_env [ex_service ''accounts'', ex_service ''products'']
                   ex_gateway))
       = Some \<lparr>typeMap =
         [(''Query'', \<lparr>type_name = ''Query'', kind = OBJECT,
                      type_fields =
                        [(''accounts'', \<lparr>field_type = ''String'',
                            resolve = Some defaultFieldResolverWithAliasSupport\<rparr>),
                         (''products'', \<lparr>field_type = ''String'',
                            resolve = Some defaultFieldResolverWithAliasSupport\<rparr>)]\<rparr>),
          (''__Schema'', \<lparr>type_name = ''__Schema'', kind = OBJECT,
                    type_fields = [(''types'', \<lparr>field_type = ''String'', resolve = None\<rparr>)]\<rparr>),
          (''Node'', \<lparr>type_name = ''Node'', kind = INTERFACE,
                    type_fields = [(''id'', \<lparr>field_type = ''String'', resolve = None\<rparr>)]\<rparr>),
          (''String'', \<lparr>type_name = ''String'', kind = SCALAR, type_fields = []\<rparr>)]\<rparr>"
    by (simp add: ex_defs gw_defs)
  have c: "snd (composeAndValidate ex_env [ex_service ''accounts'', ex_service ''products''])
             = Some []"
    by (simp add: ex_env_def ex_compose_def ex_service_def)
  have t: "typeMap (fst (composeAndValidate ex_env
                          [ex_service ''accounts'', ex_service ''products'']))
       = [(''Query'', \<lparr>type_name = ''Query'', kind = OBJECT,
                      type_fields =
                        [(''accounts'', \<lparr>field_type = ''String'', resolve = None\<rparr>),
                         (''products'', \<lparr>field_type = ''String'', resolve = None\<rparr>)]\<rparr>),
          (''__Schema'', \<lparr>type_name = ''__Schema'', kind = OBJECT,
                    type_fields = [(''types'', \<lparr>field_type = ''String'', resolve = None\<rparr>)]\<rparr>),
          (''Node'', \<lparr>type_name = ''Node'', kind = INTERFACE,
                    type_fields = [(''id'', \<lparr>field_type = ''String'', resolve = None\<rparr>)]\<rparr>),
          (''String'', \<lparr>type_name = ''String'', kind = SCALAR, type_fields = []\<rparr>)]"
    by (simp add: ex_defs)
  have d: "defaultFieldResolverWithAliasSupport [(''renamed'', ''1''), (''fieldX'', ''2'')]
        \<lparr>fieldName = ''fieldX'', path_key = ''renamed''\<rparr> = Some ''1''"
    using r by simp
  show ?thesis using a e c t d by simp
qed

subsection \<open>The executor\<close>

lemma shouldShowQueryPlan_config:
  "config gw' = config gw \<Longrightarrow> shouldShowQueryPlan gw' rc = shouldShowQueryPlan gw rc"
  by (simp add: shouldShowQueryPlan_def)

lemma executor_success:
  assumes "executor env rc gw = (Inr response, gw')"
  shows "\<exists>sch oc qp gw1 r0.
           schema gw = Some sch
         \<and> buildOperationContext env sch (document rc) (operationName (request rc)) = Inr oc
         \<and> resolveQueryPlan env rc oc gw = (Inr qp, gw1)
         \<and> executeQueryPlan env qp (serviceMap gw) rc oc = Inr r0
         \<and> response = (if shouldShowQueryPlan gw rc
                        then r0\<lparr>extensions := Some [(''__queryPlanExperimental'',
                                                        serializeQueryPlan env qp)]\<rparr>
                        else r0)"
proof (cases "schema gw")
  case None
  with assms show ?thesis by (simp add: executor_def schema_nonNull_def)
next
  case (Some sch)
  show ?thesis
  proof (cases "buildOperationContext env sch (document rc) (operationName (request rc))")
    case (Inl err)
    with Some assms show ?thesis by (simp add: executor_def schema_nonNull_def)
  next
    case (Inr oc)
    obtain p gw1 where rq: "resolveQueryPlan env rc oc gw = (p, gw1)"
      by (cases "resolveQueryPlan env rc oc gw") blast
    then obtain l q where gw1: "gw1 = gw\<lparr>logger := l, queryPlanStore := q\<rparr>"
      using resolveQueryPlan_result by blast
    show ?thesis
    proof (cases p)
      case (Inl err)
      with Some \<open>buildOperationContext env sch (document rc) (operationName (request rc)) = Inr oc\<close>
        rq assms
      show ?thesis by (simp add: executor_def schema_nonNull_def)
    next
      case qp: (Inr qp)
      show ?thesis
      proof (cases "executeQueryPlan env qp (serviceMap gw) rc oc")
        case (Inl err)
        with Some \<open>buildOperationContext env sch (document rc) (operationName (request rc)) = Inr oc\<close>
          rq qp gw1 assms
        show ?thesis by (simp add: executor_def schema_nonNull_def)
      next
        case r0: (Inr r0)
        have "response = (if shouldShowQueryPlan gw rc
                        then r0\<lparr>extensions := Some [(''__queryPlanExperimental'',
                                                        serializeQueryPlan env qp)]\<rparr>
                        else r0)"
          using Some \<open>buildOperationContext env sch (document rc) (operationName (request rc)) = Inr oc\<close>
            rq qp gw1 r0 assms
          by (auto simp: executor_def schema_nonNull_def Let_def fire_def
                shouldShowQueryPlan_def split: if_splits option.splits)
        with Some \<open>buildOperationContext env sch (document rc) (operationName (request rc)) = Inr oc\<close>
          rq qp r0
        show ?thesis by blast
      qed
    qed
  qed
qed

lemma resolveQueryPlan_miss:
  assumes "queryPlanStore gw = None
           \<or> (\<exists>store. queryPlanStore gw = Some store
                        \<and> store_get env store (queryHash rc) = Inr None)"
  shows "fst (resolveQueryPlan env rc oc gw) = buildQueryPlan env oc"
  using assms
  by (auto simp: resolveQueryPlan_def split: sum.splits)

lemma resolveQueryPlan_plan:
  assumes "resolveQueryPlan env rc oc gw = (Inr qp, gw1)"
  shows "(\<exists>store. queryPlanStore gw = Some store
                   \<and> store_get env store (queryHash rc) = Inr (Some qp))
         \<or> ((queryPlanStore gw = None
              \<or> (\<exists>store. queryPlanStore gw = Some store
                           \<and> store_get env store (queryHash rc) = Inr None))
             \<and> buildQueryPlan env oc = Inr qp)"
  using assms
  by (auto simp: resolveQueryPlan_def split: sum.splits option.splits)

text \<open>
  Claim C5. When the instance has no plan store, or the store has no entry under the
  request's \<open>queryHash\<close>, the plan is what \<^verbatim>\<open>buildQueryPlan(operationContext)\<close> builds.
  Whenever the executor returns a response, the plan that was handed to
  \<^verbatim>\<open>executeQueryPlan\<close> is the stored plan under that hash or, when there is none, the
  plan freshly built for the operation context of this request; the response is the
  result of executing that plan, with or without the serialized plan attached.
\<close>

theorem executor_plan_cached_or_fresh:
  "(queryPlanStore gw = None
      \<or> (\<exists>store. queryPlanStore gw = Some store
                   \<and> store_get env store (queryHash rc) = Inr None)
    \<longrightarrow> fst (resolveQueryPlan env rc oc gw) = buildQueryPlan env oc)
   \<and> (executor env rc gw = (Inr response, gw') \<longrightarrow>
        (\<exists>sch oc' qp gw1 r0.
            schema gw = Some sch
          \<and> buildOperationContext env sch (document rc) (operationName (request rc)) = Inr oc'
          \<and> resolveQueryPlan env rc oc' gw = (Inr qp, gw1)
          \<and> ((\<exists>store. queryPlanStore gw = Some store
                        \<and> store_get env store (queryHash rc) = Inr (Some qp))
              \<or> ((queryPlanStore gw = None
                   \<or> (\<exists>store. queryPlanStore gw = Some store
                                \<and> store_get env store (queryHash rc) = Inr None))
                  \<and> buildQueryPlan env oc' = Inr qp))
          \<and> executeQueryPlan env qp (serviceMap gw) rc oc' = Inr r0
          \<and> (response = r0
              \<or> response = r0\<lparr>extensions := Some [(''__queryPlanExperimental'',
                                                    serializeQueryPlan env qp)]\<rparr>)))"
proof (intro conjI impI)
  assume "queryPlanStore gw = None
      \<or> (\<exists>store. queryPlanStore gw = Some store
                   \<and> store_get env store (queryHash rc) = Inr None)"
  then show "fst (resolveQueryPlan env rc oc gw) = buildQueryPlan env oc"
    by (rule resolveQueryPlan_miss)
next
  assume "executor env rc gw = (Inr response, gw')"
  from executor_success [OF this] obtain sch oc' qp gw1 r0 where
    s: "schema gw = Some sch"
    and o: "buildOperationContext env sch (document rc) (operationName (request rc)) = Inr oc'"
    and p: "resolveQueryPlan env rc oc' gw = (Inr qp, gw1)"
    and e: "executeQueryPlan env qp (serviceMap gw) rc oc' = Inr r0"
    and r: "response = (if shouldShowQueryPlan gw rc
                        then r0\<lparr>extensions := Some [(''__queryPlanExperimental'',
                                                        serializeQueryPlan env qp)]\<rparr>
                        else r0)"
    by blast
  from r have r': "response = r0
              \<or> response = r0\<lparr>extensions := Some [(''__queryPlanExperimental'',
                                                    serializeQueryPlan env qp)]\<rparr>"
    by (simp split: if_splits)
  from s o p resolveQueryPlan_plan [OF p] e r'
  show "\<exists>sch oc' qp gw1 r0.
            schema gw = Some sch
          \<and> buildOperationContext env sch (document rc) (operationName (request rc)) = Inr oc'
          \<and> resolveQueryPlan env rc oc' gw = (Inr qp, gw1)
          \<and> ((\<exists>store. queryPlanStore gw = Some store
                        \<and> store_get env store (queryHash rc) = Inr (Some qp))
              \<or> ((queryPlanStore gw = None
                   \<or> (\<exists>store. queryPlanStore gw = Some store
                                \<and> store_get env store (queryHash rc) = Inr None))
                  \<and> buildQueryPlan env oc' = Inr qp))
          \<and> executeQueryPlan env qp (serviceMap gw) rc oc' = Inr r0
          \<and> (response = r0
              \<or> response = r0\<lparr>extensions := Some [(''__queryPlanExperimental'',
                                                    serializeQueryPlan env qp)]\<rparr>)"
    by blast
qed

lemma executor_ex_gateway_local:
  "fst (executor ex_env (ex_request hdr) ex_gateway_local) =
     Inr \<lparr>data = Some ''Parallel(Fetch(accounts))'', errors = None,
          extensions = (if truthy hdr
                        then Some [(''__queryPlanExperimental'', ''Parallel(Fetch(accounts))'')]
                        else None)\<rparr>"
  by (simp add: ex_defs gw_defs Let_def)

theorem executor_plan_cached_or_fresh_witness:
  "queryPlanStore ex_gateway_local = Some \<lparr>maxSize = 31457280, entries = []\<rparr>
   \<and> store_get ex_env \<lparr>maxSize = 31457280, entries = []\<rparr> (queryHash (ex_request None))
       = Inr None
   \<and> fst (resolveQueryPlan ex_env (ex_request None) ex_operationContext ex_gateway_local)
       = Inr (Parallel [Fetch ''accounts'' ''{ me }''])
   \<and> buildQueryPlan ex_env ex_operationContext = Inr (Parallel [Fetch ''accounts'' ''{ me }''])
   \<and> fst (executor ex_env (ex_request None) ex_gateway_local)
       = Inr \<lparr>data = Some ''Parallel(Fetch(accounts))'', errors = None, extensions = None\<rparr>
   \<and> executeQueryPlan ex_env (Parallel [Fetch ''accounts'' ''{ me }''])
        (serviceMap ex_gateway_local) (ex_request None) ex_operationContext
       = Inr \<lparr>data = Some ''Parallel(Fetch(accounts))'', errors = None, extensions = None\<rparr>"
proof -
  have h1: "queryPlanStore ex_gateway_local = Some \<lparr>maxSize = 31457280, entries = []\<rparr>"
    by (simp add: ex_gateway_local_def)
  have h2: "store_get ex_env \<lparr>maxSize = 31457280, entries = []\<rparr> (queryHash (ex_request None))
       = Inr None"
    by (simp add: ex_env_def)
  have h3: "fst (executor ex_env (ex_request None) ex_gateway_local)
       = Inr \<lparr>data = Some ''Parallel(Fetch(accounts))'', errors = None, extensions = None\<rparr>"
    using executor_ex_gateway_local [of None] by (simp add: truthy_def)
  have h4: "buildQueryPlan ex_env ex_operationContext
              = Inr (Parallel [Fetch ''accounts'' ''{ me }''])"
    by (simp add: ex_defs gw_defs)
  have h5: "executeQueryPlan ex_env (Parallel [Fetch ''accounts'' ''{ me }''])
        (serviceMap ex_gateway_local) (ex_request None) ex_operationContext
       = Inr \<lparr>data = Some ''Parallel(Fetch(accounts))'', errors = None, extensions = None\<rparr>"
    by (simp add: ex_env_def)
  show ?thesis
    using h1 h2 h3 h4 h5
      executor_plan_cached_or_fresh
        [where gw = ex_gateway_local and env = ex_env and rc = "ex_request None"
           and oc = ex_operationContext
           and response = "\<lparr>data = Some ''Parallel(Fetch(accounts))'', errors = None,
                             extensions = None\<rparr>"
           and gw' = "snd (executor ex_env (ex_request None) ex_gateway_local)"]
    by (simp add: prod_eq_iff)
qed

subsection \<open>Exposing the query plan\<close>

lemma new_ApolloGateway_flag:
  assumes "new_ApolloGateway env cfg = Inr gw0"
  shows "exposeQueryPlanExperimental (config gw0) =
           Some (case exposeQueryPlanExperimental cfg of
                   Some b \<Rightarrow> b
                 | None \<Rightarrow> NODE_ENV env \<noteq> Some ''production'')"
proof (cases "localServiceList cfg")
  case None
  with assms show ?thesis
    by (auto simp: new_ApolloGateway_def Let_def initializeQueryPlanStore_def
             split: if_splits option.splits)
next
  case (Some local)
  define gw1 where "gw1 =
    (let gw0 = \<lparr>schema = None, isReady = False, serviceMap = [],
                 config = cfg\<lparr>exposeQueryPlanExperimental :=
                            (case exposeQueryPlanExperimental cfg of
                               None \<Rightarrow> Some (NODE_ENV env \<noteq> Some ''production'')
                             | Some b \<Rightarrow> Some b)\<rparr>,
                 logger = [], queryPlanStore = None,
                 experimental_didResolveQueryPlan = False,
                 experimental_didFailComposition = False,
                 experimental_didUpdateSchema = False,
                 experimental_didUpdateServiceList = False,
                 experimental_getServiceList = False,
                 callbacks = []\<rparr>
     in if debug cfg = Some True then gw0\<lparr>logger := logger gw0 @ [EnableAll]\<rparr> else gw0)"
  have c1: "exposeQueryPlanExperimental (config gw1) =
           Some (case exposeQueryPlanExperimental cfg of
                   Some b \<Rightarrow> b
                 | None \<Rightarrow> NODE_ENV env \<noteq> Some ''production'')"
    by (simp add: gw1_def Let_def split: option.splits)
  have "config gw0 = config (snd (createSchema env local gw1))"
    using Some assms
    by (auto simp: new_ApolloGateway_def gw1_def [unfolded Let_def, symmetric] Let_def
          initializeQueryPlanStore_def split: sum.splits prod.splits)
  with c1 show ?thesis by (simp add: createSchema_config)
qed

text \<open>
  Claim C4, as the specification states it, fails: a request whose headers contain
  \<^verbatim>\<open>Apollo-Query-Plan-Experimental\<close> with an empty value, on an instance whose flag is
  enabled, gets a response without the serialized plan, since the executor tests the
  value of the header for truthiness.
\<close>

theorem queryPlan_not_exposed_for_empty_header:
  "exposeQueryPlanExperimental (config ex_gateway_local) = Some True
   \<and> http (request (ex_request (Some ''''))) = Some (ex_http (Some ''''))
   \<and> headers (ex_http (Some '''')) ''Apollo-Query-Plan-Experimental'' = Some ''''
   \<and> fst (executor ex_env (ex_request (Some '''')) ex_gateway_local)
       = Inr \<lparr>data = Some ''Parallel(Fetch(accounts))'', errors = None, extensions = None\<rparr>"
  using executor_ex_gateway_local [of "Some ''''"]
  by (simp add: truthy_def ex_gateway_local_def ex_request_def ex_http_def)

text \<open>
  Claim C4, amended. The flag of an instance is the value \<^verbatim>\<open>__exposeQueryPlanExperimental\<close>
  of the config it was constructed from, when the config gives one, and otherwise whether
  \<^verbatim>\<open>NODE_ENV\<close> is not \<^verbatim>\<open>production\<close>. A response of the executor is the response of
  \<^verbatim>\<open>executeQueryPlan\<close> with \<^verbatim>\<open>extensions\<close> set to the serialized plan under
  \<^verbatim>\<open>__queryPlanExperimental\<close> if the flag is enabled and the request has the header
  \<^verbatim>\<open>Apollo-Query-Plan-Experimental\<close> with a non-empty value; otherwise it is the response of
  \<^verbatim>\<open>executeQueryPlan\<close> as it is.
\<close>

theorem queryPlan_exposed_iff_flag_and_truthy_header:
  "(new_ApolloGateway env cfg = Inr gw0 \<longrightarrow>
      exposeQueryPlanExperimental (config gw0) =
        Some (case exposeQueryPlanExperimental cfg of
                Some b \<Rightarrow> b
              | None \<Rightarrow> NODE_ENV env \<noteq> Some ''production''))
   \<and> (executor env rc gw = (Inr response, gw') \<longrightarrow>
        (\<exists>qp oc r0.
            executeQueryPlan env qp (serviceMap gw) rc oc = Inr r0
          \<and> response =
              (if exposeQueryPlanExperimental (config gw) = Some True
                  \<and> (\<exists>h v. http (request rc) = Some h
                           \<and> headers h ''Apollo-Query-Plan-Experimental'' = Some v
                           \<and> v \<noteq> [])
               then r0\<lparr>extensions := Some [(''__queryPlanExperimental'',
                                               serializeQueryPlan env qp)]\<rparr>
               else r0)))"
proof (intro conjI impI)
  assume "new_ApolloGateway env cfg = Inr gw0"
  then show "exposeQueryPlanExperimental (config gw0) =
        Some (case exposeQueryPlanExperimental cfg of
                Some b \<Rightarrow> b
              | None \<Rightarrow> NODE_ENV env \<noteq> Some ''production'')"
    by (rule new_ApolloGateway_flag)
next
  assume "executor env rc gw = (Inr response, gw')"
  from executor_success [OF this] obtain sch oc qp gw1 r0 where
    e: "executeQueryPlan env qp (serviceMap gw) rc oc = Inr r0"
    and r: "response = (if shouldShowQueryPlan gw rc
                        then r0\<lparr>extensions := Some [(''__queryPlanExperimental'',
                                                        serializeQueryPlan env qp)]\<rparr>
                        else r0)"
    by blast
  have "shouldShowQueryPlan gw rc =
          (exposeQueryPlanExperimental (config gw) = Some True
           \<and> (\<exists>h v. http (request rc) = Some h
                    \<and> headers h ''Apollo-Query-Plan-Experimental'' = Some v
                    \<and> v \<noteq> []))"
    by (auto simp: shouldShowQueryPlan_def truthy_def split: option.splits)
  with e r show "\<exists>qp oc r0.
            executeQueryPlan env qp (serviceMap gw) rc oc = Inr r0
          \<and> response =
              (if exposeQueryPlanExperimental (config gw) = Some True
                  \<and> (\<exists>h v. http (request rc) = Some h
                           \<and> headers h ''Apollo-Query-Plan-Experimental'' = Some v
                           \<and> v \<noteq> [])
               then r0\<lparr>extensions := Some [(''__queryPlanExperimental'',
                                               serializeQueryPlan env qp)]\<rparr>
               else r0)"
    by auto
qed

theorem queryPlan_exposed_iff_flag_and_truthy_header_witness:
  "new_ApolloGateway (ex_env\<lparr>NODE_ENV := Some ''production''\<rparr>) ex_local_config
     = Inr (ex_gateway_local\<lparr>config := ex_local_config
                                 \<lparr>exposeQueryPlanExperimental := Some False\<rparr>\<rparr>)
   \<and> exposeQueryPlanExperimental
       (config (ex_gateway_local\<lparr>config := ex_local_config
                                   \<lparr>exposeQueryPlanExperimental := Some False\<rparr>\<rparr>))
      = Some False
   \<and> fst (executor ex_env (ex_request (Some ''1'')) ex_gateway_local)
       = Inr \<lparr>data = Some ''Parallel(Fetch(accounts))'', errors = None,
              extensions = Some [(''__queryPlanExperimental'', ''Parallel(Fetch(accounts))'')]\<rparr>
   \<and> (\<exists>qp oc r0.
         executeQueryPlan ex_env qp (serviceMap ex_gateway_local) (ex_request (Some ''1'')) oc
           = Inr r0
       \<and> \<lparr>data = Some ''Parallel(Fetch(accounts))'', errors = None,
           extensions = Some [(''__queryPlanExperimental'', ''Parallel(Fetch(accounts))'')]\<rparr>
          = r0\<lparr>extensions := Some [(''__queryPlanExperimental'',
                                      serializeQueryPlan ex_env qp)]\<rparr>)"
proof -
  have h1: "new_ApolloGateway (ex_env\<lparr>NODE_ENV := Some ''production''\<rparr>) ex_local_config
     = Inr (ex_gateway_local\<lparr>config := ex_local_config
                                 \<lparr>exposeQueryPlanExperimental := Some False\<rparr>\<rparr>)"
    by (simp add: ex_defs gw_defs)
  have h2: "fst (executor ex_env (ex_request (Some ''1'')) ex_gateway_local)
       = Inr \<lparr>data = Some ''Parallel(Fetch(accounts))'', errors = None,
              extensions = Some [(''__queryPlanExperimental'', ''Parallel(Fetch(accounts))'')]\<rparr>"
    using executor_ex_gateway_local [of "Some ''1''"] by (simp add: truthy_def)
  have h3: "exposeQueryPlanExperimental (config ex_gateway_local) = Some True"
    by (simp add: ex_gateway_local_def)
  have h4: "http (request (ex_request (Some ''1''))) = Some (ex_http (Some ''1''))"
    by (simp add: ex_request_def)
  have h5: "headers (ex_http (Some ''1'')) ''Apollo-Query-Plan-Experimental'' = Some ''1''"
    by (simp add: ex_http_def)
  have h6: "exposeQueryPlanExperimental ex_local_config = None"
    by (simp add: ex_local_config_def ex_config_def)
  show ?thesis
    using h1 h2 h3 h4 h5 h6
      queryPlan_exposed_iff_flag_and_truthy_header
        [where env = "ex_env\<lparr>NODE_ENV := Some ''production''\<rparr>" and cfg = ex_local_config
           and gw0 = "ex_gateway_local\<lparr>config := ex_local_config
                                 \<lparr>exposeQueryPlanExperimental := Some False\<rparr>\<rparr>"]
      queryPlan_exposed_iff_flag_and_truthy_header
        [where env = ex_env and rc = "ex_request (Some ''1'')" and gw = ex_gateway_local
           and response = "\<lparr>data = Some ''Parallel(Fetch(accounts))'', errors = None,
              extensions = Some [(''__queryPlanExperimental'', ''Parallel(Fetch(accounts))'')]\<rparr>"
           and gw' = "snd (executor ex_env (ex_request (Some ''1'')) ex_gateway_local)"]
    by (simp add: prod_eq_iff)
qed

subsection \<open>The write to the plan store\<close>

lemma resolveQueryPlan_store_set_fst:
  "fst (resolveQueryPlan (env\<lparr>store_set := w\<rparr>) rc oc gw) = fst (resolveQueryPlan env rc oc gw)"
  by (simp add: resolveQueryPlan_def split: sum.splits option.splits)

lemma executor_fst:
  "fst (executor env rc gw) =
     (case schema_nonNull gw of
        Inl err \<Rightarrow> Inl err
      | Inr sch \<Rightarrow>
         (case buildOperationContext env sch (document rc) (operationName (request rc)) of
            Inl err \<Rightarrow> Inl err
          | Inr oc \<Rightarrow>
             (case fst (resolveQueryPlan env rc oc gw) of
                Inl err \<Rightarrow> Inl err
              | Inr qp \<Rightarrow>
                 (case executeQueryPlan env qp (serviceMap gw) rc oc of
                    Inl err \<Rightarrow> Inl err
                  | Inr r0 \<Rightarrow>
                     (case (if experimental_didResolveQueryPlan gw
                            then observer env (DidResolveQueryPlan qp (serviceMap gw) oc)
                            else None) of
                        Some thrown \<Rightarrow> Inl thrown
                      | None \<Rightarrow>
                          Inr (if shouldShowQueryPlan gw rc
                               then r0\<lparr>extensions := Some [(''__queryPlanExperimental'',
                                                               serializeQueryPlan env qp)]\<rparr>
                               else r0))))))"
proof (cases "schema_nonNull gw")
  case (Inl err)
  then show ?thesis by (simp add: executor_def)
next
  case sch: (Inr sch)
  show ?thesis
  proof (cases "buildOperationContext env sch (document rc) (operationName (request rc))")
    case (Inl err)
    with sch show ?thesis by (simp add: executor_def)
  next
    case oc: (Inr oc)
    obtain p gw1 where rq: "resolveQueryPlan env rc oc gw = (p, gw1)"
      by (cases "resolveQueryPlan env rc oc gw") blast
    then obtain l q where gw1: "gw1 = gw\<lparr>logger := l, queryPlanStore := q\<rparr>"
      using resolveQueryPlan_result by blast
    show ?thesis
    proof (cases p)
      case (Inl err)
      with sch oc rq show ?thesis by (simp add: executor_def)
    next
      case qp: (Inr qp)
      show ?thesis
      proof (cases "executeQueryPlan env qp (serviceMap gw) rc oc")
        case (Inl err)
        with sch oc rq qp gw1 show ?thesis by (simp add: executor_def)
      next
        case (Inr r0)
        with sch oc rq qp gw1 show ?thesis
          by (auto simp: executor_def Let_def fire_def shouldShowQueryPlan_def
                split: option.splits)
      qed
    qed
  qed
qed

lemma executor_snd:
  "snd (executor env rc gw) =
     (case schema_nonNull gw of
        Inl err \<Rightarrow> gw
      | Inr sch \<Rightarrow>
         (case buildOperationContext env sch (document rc) (operationName (request rc)) of
            Inl err \<Rightarrow> gw
          | Inr oc \<Rightarrow>
             (case fst (resolveQueryPlan env rc oc gw) of
                Inl err \<Rightarrow> snd (resolveQueryPlan env rc oc gw)
              | Inr qp \<Rightarrow>
                 (case executeQueryPlan env qp (serviceMap gw) rc oc of
                    Inl err \<Rightarrow> snd (resolveQueryPlan env rc oc gw)
                  | Inr r0 \<Rightarrow>
                      (if shouldShowQueryPlan gw rc
                          \<and> (if experimental_didResolveQueryPlan gw
                               then observer env (DidResolveQueryPlan qp (serviceMap gw) oc)
                               else None) = None
                       then logger_debug (serializeQueryPlan env qp) else id)
                        ((if experimental_didResolveQueryPlan gw
                          then (\<lambda>g. snd (fire env (DidResolveQueryPlan qp (serviceMap gw) oc) g))
                          else id)
                           (snd (resolveQueryPlan env rc oc gw)))))))"
proof (cases "schema_nonNull gw")
  case (Inl err)
  then show ?thesis by (simp add: executor_def)
next
  case sch: (Inr sch)
  show ?thesis
  proof (cases "buildOperationContext env sch (document rc) (operationName (request rc))")
    case (Inl err)
    with sch show ?thesis by (simp add: executor_def)
  next
    case oc: (Inr oc)
    obtain p gw1 where rq: "resolveQueryPlan env rc oc gw = (p, gw1)"
      by (cases "resolveQueryPlan env rc oc gw") blast
    then obtain l q where gw1: "gw1 = gw\<lparr>logger := l, queryPlanStore := q\<rparr>"
      using resolveQueryPlan_result by blast
    show ?thesis
    proof (cases p)
      case (Inl err)
      with sch oc rq show ?thesis by (simp add: executor_def)
    next
      case qp: (Inr qp)
      show ?thesis
      proof (cases "executeQueryPlan env qp (serviceMap gw) rc oc")
        case (Inl err)
        with sch oc rq qp gw1 show ?thesis by (simp add: executor_def)
      next
        case (Inr r0)
        with sch oc rq qp gw1 show ?thesis
          by (auto simp: executor_def Let_def fire_def shouldShowQueryPlan_def
                split: option.splits)
      qed
    qed
  qed
qed

lemma resolveQueryPlan_rejected_snd:
  "snd (resolveQueryPlan (env\<lparr>store_set := \<lambda>store key qp. Rejected err\<rparr>) rc oc gw) =
     (case queryPlanStore gw of
        None \<Rightarrow> gw
      | Some store \<Rightarrow>
         (case store_get env store (queryHash rc) of
            Inr None \<Rightarrow>
              (case buildQueryPlan env oc of
                 Inl e \<Rightarrow> gw
               | Inr qp \<Rightarrow> logger_warn ''Could not store queryPlan'' err gw)
          | _ \<Rightarrow> gw))"
  by (simp add: resolveQueryPlan_def storeQueryPlan_def split: sum.splits option.splits)

lemma resolveQueryPlan_pending_snd:
  "snd (resolveQueryPlan (env\<lparr>store_set := \<lambda>store key qp. Pending\<rparr>) rc oc gw) = gw"
  by (simp add: resolveQueryPlan_def storeQueryPlan_def split: sum.splits option.splits)

text \<open>
  Claim C3. The write of a freshly built plan to the plan store is detached. What the
  executor returns or throws does not depend on what becomes of the write: it is the same
  for every behaviour of the store's \<^verbatim>\<open>set\<close> as when the write is still pending at the
  time the executor returns. A write that is rejected changes nothing in the instance but
  its log, and the log only by the warning \<^verbatim>\<open>Could not store queryPlan\<close> with the error,
  which is logged whenever a fresh plan was built for a request that found no entry.
\<close>

theorem plan_store_write_fire_and_forget:
  "fst (executor (env\<lparr>store_set := w\<rparr>) rc gw)
     = fst (executor (env\<lparr>store_set := \<lambda>store key qp. Pending\<rparr>) rc gw)
   \<and> (snd (executor (env\<lparr>store_set := \<lambda>store key qp. Rejected err\<rparr>) rc gw))\<lparr>logger := []\<rparr>
     = (snd (executor (env\<lparr>store_set := \<lambda>store key qp. Pending\<rparr>) rc gw))\<lparr>logger := []\<rparr>
   \<and> filter (\<lambda>c. c \<noteq> Warn ''Could not store queryPlan'' err)
        (logger (snd (executor (env\<lparr>store_set := \<lambda>store key qp. Rejected err\<rparr>) rc gw)))
     = filter (\<lambda>c. c \<noteq> Warn ''Could not store queryPlan'' err)
        (logger (snd (executor (env\<lparr>store_set := \<lambda>store key qp. Pending\<rparr>) rc gw)))
   \<and> (queryPlanStore gw = Some store \<and> store_get env store (queryHash rc) = Inr None
        \<and> schema gw = Some sch
        \<and> buildOperationContext env sch (document rc) (operationName (request rc)) = Inr oc
        \<and> buildQueryPlan env oc = Inr qp
      \<longrightarrow> Warn ''Could not store queryPlan'' err
            \<in> set (logger (snd (executor (env\<lparr>store_set := \<lambda>store key qp. Rejected err\<rparr>)
                                   rc gw))))"
proof (intro conjI impI)
  show "fst (executor (env\<lparr>store_set := w\<rparr>) rc gw)
     = fst (executor (env\<lparr>store_set := \<lambda>store key qp. Pending\<rparr>) rc gw)"
    by (simp add: executor_fst resolveQueryPlan_store_set_fst
          split: sum.splits option.splits)
next
  show "(snd (executor (env\<lparr>store_set := \<lambda>store key qp. Rejected err\<rparr>) rc gw))\<lparr>logger := []\<rparr>
     = (snd (executor (env\<lparr>store_set := \<lambda>store key qp. Pending\<rparr>) rc gw))\<lparr>logger := []\<rparr>"
    by (auto simp: executor_snd resolveQueryPlan_store_set_fst resolveQueryPlan_rejected_snd
          resolveQueryPlan_pending_snd logger_warn_def logger_debug_def fire_def
          split: sum.splits option.splits)
next
  show "filter (\<lambda>c. c \<noteq> Warn ''Could not store queryPlan'' err)
        (logger (snd (executor (env\<lparr>store_set := \<lambda>store key qp. Rejected err\<rparr>) rc gw)))
     = filter (\<lambda>c. c \<noteq> Warn ''Could not store queryPlan'' err)
        (logger (snd (executor (env\<lparr>store_set := \<lambda>store key qp. Pending\<rparr>) rc gw)))"
    by (auto simp: executor_snd resolveQueryPlan_store_set_fst resolveQueryPlan_rejected_snd
          resolveQueryPlan_pending_snd logger_warn_def logger_debug_def fire_def
          split: sum.splits option.splits)
next
  assume "queryPlanStore gw = Some store \<and> store_get env store (queryHash rc) = Inr None
        \<and> schema gw = Some sch
        \<and> buildOperationContext env sch (document rc) (operationName (request rc)) = Inr oc
        \<and> buildQueryPlan env oc = Inr qp"
  then show "Warn ''Could not store queryPlan'' err
            \<in> set (logger (snd (executor (env\<lparr>store_set := \<lambda>store key qp. Rejected err\<rparr>)
                                   rc gw)))"
    by (auto simp: executor_snd resolveQueryPlan_store_set_fst resolveQueryPlan_rejected_snd
          schema_nonNull_def logger_warn_def logger_debug_def fire_def
          split: sum.splits option.splits)
qed

theorem plan_store_write_fire_and_forget_witness:
  "queryPlanStore ex_gateway_local = Some \<lparr>maxSize = 31457280, entries = []\<rparr>
   \<and> store_get ex_env \<lparr>maxSize = 31457280, entries = []\<rparr> (queryHash (ex_request None))
       = Inr None
   \<and> schema ex_gateway_local = Some (oc_schema ex_operationContext)
   \<and> buildOperationContext ex_env (oc_schema ex_operationContext)
        (document (ex_request None)) (operationName (request (ex_request None)))
       = Inr ex_operationContext
   \<and> buildQueryPlan ex_env ex_operationContext = Inr (Parallel [Fetch ''accounts'' ''{ me }''])
   \<and> fst (executor (ex_env\<lparr>store_set := \<lambda>store key qp. Rejected (Error ''cache down'')\<rparr>)
             (ex_request None) ex_gateway_local)
       = Inr \<lparr>data = Some ''Parallel(Fetch(accounts))'', errors = None, extensions = None\<rparr>
   \<and> fst (executor (ex_env\<lparr>store_set := \<lambda>store key qp. Pending\<rparr>)
             (ex_request None) ex_gateway_local)
       = Inr \<lparr>data = Some ''Parallel(Fetch(accounts))'', errors = None, extensions = None\<rparr>
   \<and> Warn ''Could not store queryPlan'' (Error ''cache down'')
       \<in> set (logger (snd (executor
                (ex_env\<lparr>store_set := \<lambda>store key qp. Rejected (Error ''cache down'')\<rparr>)
                (ex_request None) ex_gateway_local)))"
proof -
  have h1: "queryPlanStore ex_gateway_local = Some \<lparr>maxSize = 31457280, entries = []\<rparr>"
    by (simp add: ex_gateway_local_def)
  have h2: "store_get ex_env \<lparr>maxSize = 31457280, entries = []\<rparr> (queryHash (ex_request None))
       = Inr None"
    by (simp add: ex_env_def)
  have h3: "schema ex_gateway_local = Some (oc_schema ex_operationContext)"
    by (simp add: ex_gateway_local_def ex_operationContext_def)
  have h4: "buildOperationContext ex_env (oc_schema ex_operationContext)
        (document (ex_request None)) (operationName (request (ex_request None)))
       = Inr ex_operationContext"
    by (simp add: ex_env_def ex_operationContext_def ex_request_def)
  have h5: "buildQueryPlan ex_env ex_operationContext
              = Inr (Parallel [Fetch ''accounts'' ''{ me }''])"
    by (simp add: ex_defs gw_defs)
  have h6: "fst (executor (ex_env\<lparr>store_set := \<lambda>store key qp. Pending\<rparr>)
             (ex_request None) ex_gateway_local)
       = Inr \<lparr>data = Some ''Parallel(Fetch(accounts))'', errors = None, extensions = None\<rparr>"
    by (simp add: ex_defs gw_defs Let_def)
  show ?thesis
    using h1 h2 h3 h4 h5 h6
      plan_store_write_fire_and_forget
        [where env = ex_env and rc = "ex_request None" and gw = ex_gateway_local
           and w = "\<lambda>store key qp. Rejected (Error ''cache down'')"
           and err = "Error ''cache down''"
           and store = "\<lparr>maxSize = 31457280, entries = []\<rparr>"
           and sch = "oc_schema ex_operationContext" and oc = ex_operationContext
           and qp = "Parallel [Fetch ''accounts'' ''{ me }'']"]
    by simp
qed

subsection \<open>The service map\<close>











subsection \<open>The plan store across a schema replacement\<close>

lemma resolveQueryPlan_hit:
  assumes "queryPlanStore gw = Some store"
    and "store_get env store (queryHash rc) = Inr (Some qp)"
  shows "resolveQueryPlan env rc oc gw = (Inr qp, gw)"
  using assms by (simp add: resolveQueryPlan_def)

text \<open>
  Claim C1, as the specification states it, fails: \<^verbatim>\<open>createSchema\<close> does not touch the
  plan store, and the key is the \<open>queryHash\<close> of the request, in which the schema has no
  part. An instance composed from the service \<open>accounts\<close> serves a request and stores its
  plan; the schema is then replaced by one composed from the service \<open>products\<close>; the
  same request is then served with the stored plan, which fetches from \<open>accounts\<close>, while
  a plan built against the schema in force fetches from \<open>products\<close>.
\<close>

theorem stale_plan_served_after_schema_replacement:
  "new_ApolloGateway ex_env ex_local_config = Inr ex_gateway_local
   \<and> queryPlanStore ex_gateway_cached
       = Some \<lparr>maxSize = 31457280,
               entries = [(''5f2c'', Parallel [Fetch ''accounts'' ''{ me }''])]\<rparr>
   \<and> createSchema ex_env [ex_service ''products''] ex_gateway_cached
       = (Inr (), ex_gateway_recomposed)
   \<and> schema ex_gateway_recomposed
       = Some (wrapSchemaWithAliasResolver (fst (ex_compose [ex_service ''products''])))
   \<and> schema ex_gateway_recomposed \<noteq> schema ex_gateway_cached
   \<and> queryPlanStore ex_gateway_recomposed
       = Some \<lparr>maxSize = 31457280,
               entries = [(''5f2c'', Parallel [Fetch ''accounts'' ''{ me }''])]\<rparr>
   \<and> buildQueryPlan ex_env
        \<lparr>oc_schema = wrapSchemaWithAliasResolver (fst (ex_compose [ex_service ''products''])),
         oc_operation = ''{ me }'', oc_operationName = None, oc_fragments = []\<rparr>
       = Inr (Parallel [Fetch ''products'' ''{ me }''])
   \<and> fst (executor ex_env (ex_request None) ex_gateway_recomposed)
       = Inr \<lparr>data = Some ''Parallel(Fetch(accounts))'', errors = None, extensions = None\<rparr>"
  by (simp add: new_ex_gateway_local)
     (simp add: ex_gateway_recomposed_def ex_gateway_cached_def ex_defs gw_defs Let_def)

text \<open>
  Claim C1, amended. The plan store is keyed by the \<open>queryHash\<close> of the request alone and
  a schema replacement does not invalidate it: \<^verbatim>\<open>createSchema\<close> leaves the plan store as
  it is, whether it succeeds or throws. So after a schema replacement a request whose
  \<open>queryHash\<close> has an entry is given the stored plan, and a request whose \<open>queryHash\<close> has
  no entry (or an instance without a store) gets the plan built for its operation context.
\<close>

theorem createSchema_keeps_plan_store:
  "queryPlanStore (snd (createSchema env services gw)) = queryPlanStore gw
   \<and> (queryPlanStore gw = Some store \<and> store_get env store (queryHash rc) = Inr (Some qp)
      \<longrightarrow> resolveQueryPlan env rc oc (snd (createSchema env services gw))
            = (Inr qp, snd (createSchema env services gw)))
   \<and> (queryPlanStore gw = None
        \<or> (\<exists>store. queryPlanStore gw = Some store
                     \<and> store_get env store (queryHash rc) = Inr None)
      \<longrightarrow> fst (resolveQueryPlan env rc oc (snd (createSchema env services gw)))
            = buildQueryPlan env oc)"
proof (intro conjI impI)
  show "queryPlanStore (snd (createSchema env services gw)) = queryPlanStore gw"
    by (rule createSchema_queryPlanStore)
next
  assume "queryPlanStore gw = Some store \<and> store_get env store (queryHash rc) = Inr (Some qp)"
  then show "resolveQueryPlan env rc oc (snd (createSchema env services gw))
            = (Inr qp, snd (createSchema env services gw))"
    by (simp add: resolveQueryPlan_hit createSchema_queryPlanStore)
next
  assume "queryPlanStore gw = None
        \<or> (\<exists>store. queryPlanStore gw = Some store
                     \<and> store_get env store (queryHash rc) = Inr None)"
  then show "fst (resolveQueryPlan env rc oc (snd (createSchema env services gw)))
            = buildQueryPlan env oc"
    by (intro resolveQueryPlan_miss) (simp add: createSchema_queryPlanStore)
qed

theorem createSchema_keeps_plan_store_witness:
  "queryPlanStore ex_gateway_cached
     = Some \<lparr>maxSize = 31457280,
             entries = [(''5f2c'', Parallel [Fetch ''accounts'' ''{ me }''])]\<rparr>
   \<and> store_get ex_env
        \<lparr>maxSize = 31457280, entries = [(''5f2c'', Parallel [Fetch ''accounts'' ''{ me }''])]\<rparr>
        (queryHash (ex_request None))
       = Inr (Some (Parallel [Fetch ''accounts'' ''{ me }'']))
   \<and> queryPlanStore (snd (createSchema ex_env [ex_service ''products''] ex_gateway_cached))
       = queryPlanStore ex_gateway_cached
   \<and> resolveQueryPlan ex_env (ex_request None) ex_operationContext
        (snd (createSchema ex_env [ex_service ''products''] ex_gateway_cached))
       = (Inr (Parallel [Fetch ''accounts'' ''{ me }'']),
          snd (createSchema ex_env [ex_service ''products''] ex_gateway_cached))
   \<and> queryPlanStore ex_gateway_local = Some \<lparr>maxSize = 31457280, entries = []\<rparr>
   \<and> store_get ex_env \<lparr>maxSize = 31457280, entries = []\<rparr> (queryHash (ex_request None))
       = Inr None
   \<and> fst (resolveQueryPlan ex_env (ex_request None) ex_operationContext
             (snd (createSchema ex_env [ex_service ''products''] ex_gateway_local)))
       = buildQueryPlan ex_env ex_operationContext"
proof -
  have h1: "queryPlanStore ex_gateway_cached
     = Some \<lparr>maxSize = 31457280,
             entries = [(''5f2c'', Parallel [Fetch ''accounts'' ''{ me }''])]\<rparr>"
    by (simp add: ex_gateway_cached_def ex_defs gw_defs Let_def)
  have h2: "store_get ex_env
        \<lparr>maxSize = 31457280, entries = [(''5f2c'', Parallel [Fetch ''accounts'' ''{ me }''])]\<rparr>
        (queryHash (ex_request None))
       = Inr (Some (Parallel [Fetch ''accounts'' ''{ me }'']))"
    by (simp add: ex_env_def ex_request_def)
  have h3: "queryPlanStore ex_gateway_local = Some \<lparr>maxSize = 31457280, entries = []\<rparr>"
    by (simp add: ex_gateway_local_def)
  have h4: "store_get ex_env \<lparr>maxSize = 31457280, entries = []\<rparr> (queryHash (ex_request None))
       = Inr None"
    by (simp add: ex_env_def)
  show ?thesis
    using h1 h2 h3 h4
      createSchema_keeps_plan_store
        [where env = ex_env and services = "[ex_service ''products'']"
           and gw = ex_gateway_cached and rc = "ex_request None" and oc = ex_operationContext
           and store = "\<lparr>maxSize = 31457280,
                          entries = [(''5f2c'', Parallel [Fetch ''accounts'' ''{ me }''])]\<rparr>"
           and qp = "Parallel [Fetch ''accounts'' ''{ me }'']"]
      createSchema_keeps_plan_store
        [where env = ex_env and services = "[ex_service ''products'']"
           and gw = ex_gateway_local and rc = "ex_request None" and oc = ex_operationContext]
    by simp
qed

subsection \<open>The service-list callback\<close>

text \<open>
  Claim C7 describes what the comment at the field \<^verbatim>\<open>experimental_didUpdateServiceList\<close>
  announces; the code stores the callback and never calls it. Here the instance has the
  callback, \<^verbatim>\<open>load\<close> loads the service list from the remote endpoint, fills the service
  map and composes the schema, and the only callback called is the schema-update one.
\<close>

theorem load_never_fires_didUpdateServiceList:
  "experimental_didUpdateServiceList ex_gateway
   \<and> fst (load ex_env ex_gateway)
       = Inr (Some (wrapSchemaWithAliasResolver (fst (ex_compose [ex_service ''accounts'']))))
   \<and> serviceMap ex_gateway = []
   \<and> serviceMap (snd (load ex_env ex_gateway))
       = [(''accounts'', RemoteGraphQLDataSource (Some ''http://accounts''))]
   \<and> callbacks (snd (load ex_env ex_gateway))
       = [DidUpdateSchema None
            (wrapSchemaWithAliasResolver (fst (ex_compose [ex_service ''accounts''])))]"
  by (simp add: ex_defs gw_defs)

end
